theory Spec2Isabelle
  imports Main "HOL-Library.Sublist"
begin

section \<open>Outcomes, external calls and the history of a run\<close>

text \<open>
  Both modules end either in \<open>module.exit_json(**result)\<close>, in \<open>module.fail_json(msg=...)\<close>
  or in an uncaught Python exception. The last two are failures; the first is the value
  of the run.
\<close>

datatype failure = FailJson string | Raised string

text \<open>
  Every call that leaves the process is recorded. The platform answers a call as a function of
  the calls issued before it (the history), so that a query may answer differently before and
  after a mutation.
\<close>

datatype call =
    LookGraphql string string string
  | AnalyzeAsset string string string
  | AnypointCli string
  | Maven string
  | WriteSettingsXml string
  | ModifyPomFile string
  | SetAssetName string string string string
  | ModifyExchangeAsset string string string
  | DeleteExchangeAsset string string string
  | Describe string
  | HttpGet string

text \<open>The calls that change the platform or the host; the others only read.\<close>

fun mutating :: "call \<Rightarrow> bool" where
  "mutating (LookGraphql g a v) = False"
| "mutating (AnalyzeAsset g a v) = False"
| "mutating (Describe c) = False"
| "mutating (HttpGet u) = False"
| "mutating c = True"

text \<open>
  A step takes the history before it and returns its outcome with the calls it issued.
\<close>

type_synonym 'a step = "call list \<Rightarrow> (failure + 'a) \<times> call list"

definition ok :: "'a \<Rightarrow> 'a step" where
  "ok x h = (Inr x, [])"

definition fail_json :: "string \<Rightarrow> 'a step" where
  "fail_json msg h = (Inl (FailJson msg), [])"

definition raise :: "string \<Rightarrow> 'a step" where
  "raise exn h = (Inl (Raised exn), [])"

definition perform :: "call \<Rightarrow> (call list \<Rightarrow> failure + 'a) \<Rightarrow> 'a step" where
  "perform c answer h = (answer h, [c])"

definition andthen :: "'a step \<Rightarrow> ('a \<Rightarrow> 'b step) \<Rightarrow> 'b step" where
  "andthen f g h =
     (case f h of
        (Inl e, cs) \<Rightarrow> (Inl e, cs)
      | (Inr x, cs) \<Rightarrow> (case g x (h @ cs) of (r, cs') \<Rightarrow> (r, cs @ cs')))"

section \<open>The asset module: ap_exchange_asset.py\<close>

subsection \<open>Parameters\<close>

text \<open>
  \<open>state\<close> and \<open>type\<close> are strings restricted by \<open>choices\<close> in the argument
  specification, hence datatypes. Optional parameters are \<open>None\<close> when not given.
\<close>

datatype lifecycle = Present | Deprecated | Absent

datatype asset_type = Custom | Oas | Wsdl | Example | Template | Extension | Connector | Policy

fun type_name :: "asset_type \<Rightarrow> string" where
  "type_name Custom = ''custom''"
| "type_name Oas = ''oas''"
| "type_name Wsdl = ''wsdl''"
| "type_name Example = ''example''"
| "type_name Template = ''template''"
| "type_name Extension = ''extension''"
| "type_name Connector = ''connector''"
| "type_name Policy = ''policy''"

record maven_opts =
  sources :: "string option"
  settings :: "string option"
  pom :: "string option"
  arguments :: "string list"

record params =
  name :: string
  state :: lifecycle
  bearer :: string
  host :: string
  organization :: string
  organization_id :: string
  atype :: asset_type
  group_id :: string
  asset_id :: string
  asset_version :: string
  api_version :: string
  main_file :: "string option"
  file_path :: "string option"
  tags :: "string list"
  description :: "string option"
  icon :: "string option"
  maven :: "maven_opts option"
  check_mode :: bool

subsection \<open>What the platform and the host answer\<close>

record query_error =
  status :: "int option"
  message :: "string option"

record asset_item =
  assetId :: string
  groupId :: string
  version :: string
  item_type :: string

record query_output =
  errors :: "query_error list"
  assets :: "asset_item list"

record analysis =
  must_update :: bool
  must_update_name :: bool
  must_update_icon :: bool
  must_update_description :: bool
  must_update_tags :: bool
  is_deprecated :: bool

record asset_context =
  do_nothing :: bool
  exists_on_exchange :: bool
  exchange_must_update :: bool
  exchange_must_update_name :: bool
  exchange_must_update_icon :: bool
  exchange_must_update_description :: bool
  exchange_must_update_tags :: bool
  deprecated :: bool

text \<open>
  The helpers of \<open>ap_common\<close> and \<open>ap_exchange_common\<close>, the framework's
  \<open>get_bin_path\<close> and \<open>run_command\<close>, and the file system are parameters: each answers
  from the history. A helper may itself end the run, so it answers a failure or a value.
\<close>

record asset_world =
  get_bin_path :: "string \<Rightarrow> string option"
  ap_get_anypointcli_path :: "failure + string option"
  look_exchange_asset_with_graphql :: "call list \<Rightarrow> string \<Rightarrow> string \<Rightarrow> string \<Rightarrow> failure + query_output"
  analyze_asset :: "call list \<Rightarrow> failure + analysis"
  execute_anypoint_cli :: "call list \<Rightarrow> string \<Rightarrow> failure + string"
  run_command :: "call list \<Rightarrow> string \<Rightarrow> int \<times> string"
  write_settings_xml :: "call list \<Rightarrow> string \<Rightarrow> string option"
  modify_pom_file :: "call list \<Rightarrow> string \<Rightarrow> failure + unit"
  set_asset_name :: "call list \<Rightarrow> failure + unit"
  modify_exchange_asset :: "call list \<Rightarrow> asset_context \<Rightarrow> failure + string"
  delete_exchange_asset :: "call list \<Rightarrow> failure + string"
  get_asset_identifier :: "string \<Rightarrow> string \<Rightarrow> string \<Rightarrow> string"

subsection \<open>look_asset_on_exchange\<close>

definition look_asset_on_exchange :: "params \<Rightarrow> asset_world \<Rightarrow> string option step" where
  "look_asset_on_exchange m w =
     andthen
       (perform (LookGraphql (group_id m) (asset_id m) (asset_version m))
          (\<lambda>h. look_exchange_asset_with_graphql w h (group_id m) (asset_id m) (asset_version m)))
       (\<lambda>output.
          case errors output of
            e # es \<Rightarrow>
              if status e \<noteq> Some 404 then
                (case message e of
                   None \<Rightarrow> raise ''KeyError''
                 | Some msg \<Rightarrow>
                     fail_json (''[look_asset_on_exchange] Error looking for asset on exchange: '' @ msg))
              else ok None
          | [] \<Rightarrow>
              (case assets output of
                 [] \<Rightarrow> raise ''IndexError''
               | item # items \<Rightarrow>
                   if asset_id m = assetId item \<and> group_id m = groupId item
                      \<and> asset_version m = version item \<and> type_name (atype m) = item_type item
                   then ok (Some (assetId item))
                   else ok None))"

subsection \<open>get_context\<close>

definition initial_context :: asset_context where
  "initial_context =
     \<lparr>do_nothing = False, exists_on_exchange = False, exchange_must_update = False,
      exchange_must_update_name = False, exchange_must_update_icon = False,
      exchange_must_update_description = False, exchange_must_update_tags = False,
      deprecated = False\<rparr>"

definition get_context :: "params \<Rightarrow> asset_world \<Rightarrow> string \<Rightarrow> asset_context step" where
  "get_context m w cmd_base =
     andthen (look_asset_on_exchange m w)
       (\<lambda>found.
          let rv = (if found \<noteq> None then initial_context\<lparr>exists_on_exchange := True\<rparr>
                    else initial_context)
          in if state m = Present \<or> state m = Deprecated then
               if exists_on_exchange rv then
                 andthen
                   (perform (AnalyzeAsset (group_id m) (asset_id m) (asset_version m))
                      (analyze_asset w))
                   (\<lambda>res.
                      let rv1 = rv\<lparr>exchange_must_update := must_update res,
                                    exchange_must_update_name := must_update_name res,
                                    exchange_must_update_icon := must_update_icon res,
                                    exchange_must_update_description := must_update_description res,
                                    exchange_must_update_tags := must_update_tags res,
                                    deprecated := is_deprecated res\<rparr>
                      in if state m = Present then
                           ok (rv1\<lparr>do_nothing :=
                                 (\<not> exchange_must_update rv1 \<and> \<not> deprecated rv1)\<rparr>)
                         else if state m = Deprecated then
                           ok (rv1\<lparr>do_nothing := deprecated rv1\<rparr>)
                         else ok rv1)
               else ok rv
             else if state m = Absent then
               ok (rv\<lparr>do_nothing := \<not> exists_on_exchange rv\<rparr>)
             else ok rv)"

subsection \<open>Paths, commands and the build tool\<close>

definition remove_newlines :: "string \<Rightarrow> string" where
  "remove_newlines s = filter (\<lambda>c. c \<noteq> CHR 0x0A) s"

definition join :: "string \<Rightarrow> string list \<Rightarrow> string" where
  "join sep xs = (case xs of [] \<Rightarrow> [] | y # ys \<Rightarrow> y @ concat (map (\<lambda>z. sep @ z) ys))"

text \<open>
  \<open>os.path.splitext(p)[1]\<close> of the Python library: the part of the last path component
  from its last dot on, or the empty string when the component has no dot or only dots
  before the last one.
\<close>

definition splitext_ext :: "string \<Rightarrow> string" where
  "splitext_ext p =
     (let base = rev (takeWhile (\<lambda>c. c \<noteq> CHR ''/'') (rev p)) in
      if CHR ''.'' \<in> set base then
        (let ext = rev (takeWhile (\<lambda>c. c \<noteq> CHR ''.'') (rev base));
             stem = rev (tl (dropWhile (\<lambda>c. c \<noteq> CHR ''.'') (rev base)))
         in if dropWhile (\<lambda>c. c = CHR ''.'') stem \<noteq> [] then CHR ''.'' # ext else [])
      else [])"

text \<open>
  \<open>module.get_bin_path(name, required, ...)\<close> of the framework: the path of the binary, or
  \<open>None\<close> when it is not found; with \<open>required=True\<close> the framework itself fails then.
\<close>

definition module_get_bin_path ::
  "(string \<Rightarrow> string option) \<Rightarrow> string \<Rightarrow> bool \<Rightarrow> string option step" where
  "module_get_bin_path lookup_bin nm required =
     (case lookup_bin nm of
        None \<Rightarrow>
          if required then fail_json (''Failed to find required executable '' @ nm) else ok None
      | Some p \<Rightarrow> ok (Some p))"

definition get_maven_path :: "asset_world \<Rightarrow> string option step" where
  "get_maven_path w = module_get_bin_path (get_bin_path w) ''mvn'' True"

text \<open>
  \<open>ap_common.get_anypointcli_path\<close> is not among the sources: what it returns, a path,
  \<open>None\<close> or a failure of its own, is a parameter.
\<close>

definition get_anypointcli_path :: "asset_world \<Rightarrow> string option step" where
  "get_anypointcli_path w h = (ap_get_anypointcli_path w, [])"

definition execute_maven :: "asset_world \<Rightarrow> string \<Rightarrow> string step" where
  "execute_maven w cmd =
     andthen (get_maven_path w)
       (\<lambda>found.
          case found of
            None \<Rightarrow> raise ''TypeError''
          | Some mvn \<Rightarrow>
              (let final_cmd = mvn @ '' '' @ cmd in
               andthen (perform (Maven final_cmd) (\<lambda>h. Inr (run_command w h final_cmd)))
                 (\<lambda>result.
                    if fst result \<noteq> 0 then fail_json (''[execute_maven] '' @ snd result)
                    else ok (snd result))))"

definition get_tmp_dir :: string where
  "get_tmp_dir = ''/tmp''"

definition get_settings_xml_path :: "params \<Rightarrow> string" where
  "get_settings_xml_path m =
     get_tmp_dir @ ''/'' @ group_id m @ ''_'' @ asset_id m @ ''_settings.xml''"

text \<open>
  \<open>create_settings_xml\<close> writes the credentials file; only the write and its possible
  failure are modelled, not the XML text.
\<close>

definition create_settings_xml :: "params \<Rightarrow> asset_world \<Rightarrow> bool step" where
  "create_settings_xml m w =
     perform (WriteSettingsXml (get_settings_xml_path m))
       (\<lambda>h. case write_settings_xml w h (get_settings_xml_path m) of
               Some e \<Rightarrow>
                 Inl (FailJson
                   (''[create_settings_xml] Can not create settings.xml file dynamically ['' @ e @ '']''))
             | None \<Rightarrow> Inr True)"

definition get_distribution_repository_url :: "params \<Rightarrow> string" where
  "get_distribution_repository_url m =
     ''https://maven.'' @ host m @ ''/api/v1/organizations/'' @ group_id m @ ''/maven''"

subsection \<open>upload_exchange_asset\<close>

text \<open>The classifier chosen on the deploy-file path (lines 433 to 448).\<close>

definition select_classifier :: "asset_type \<Rightarrow> string \<Rightarrow> failure + string" where
  "select_classifier t file_extension =
     (if t = Connector \<and> file_extension = ''.zip'' then Inr '' -Dclassifier=studio-plugin''
      else if t = Extension \<and> file_extension = ''.jar'' then Inr '' -Dclassifier=mule-plugin''
      else if t = Policy \<and> file_extension = ''.jar'' then Inr '' -Dclassifier=mule-policy''
      else if t = Example \<and> file_extension = ''.jar''
        then Inr '' -Dclassifier=mule-application-example''
      else if t = Template \<and> file_extension = ''.jar''
        then Inr '' -Dclassifier=mule-application-template''
      else Inl (FailJson
        (''[upload_exchange_asset] invalid file extension for '' @ type_name t @ '' asset type ''
         @ ''(only supported .zip for mule 3 and .jar for mule 4)'')))"

definition cli_upload_cmd :: "params \<Rightarrow> string \<Rightarrow> string \<Rightarrow> string" where
  \<open>cli_upload_cmd m cmd_base asset_identifier =
     cmd_base @ '' upload'' @ '' --name "'' @ name m @ ''"''
     @ (case main_file m of None \<Rightarrow> [] | Some f \<Rightarrow> '' --mainFile "'' @ f @ ''"'')
     @ '' --classifier "'' @ type_name (atype m) @ ''"''
     @ '' "'' @ asset_identifier @ ''"''
     @ (case file_path m of None \<Rightarrow> [] | Some f \<Rightarrow> '' "'' @ f @ ''"'')\<close>

definition build_from_sources :: "params \<Rightarrow> asset_world \<Rightarrow> maven_opts \<Rightarrow> string \<Rightarrow> string step" where
  \<open>build_from_sources m w mv src =
     (let deploy_cmd1 = ''-U -B clean deploy -DskipTests -DattachMuleSources=true''
            @ (case settings mv of None \<Rightarrow> [] | Some gs \<Rightarrow> '' -gs "'' @ gs @ ''"'')
      in andthen (create_settings_xml m w)
           (\<lambda>written.
              let deploy_cmd2 = deploy_cmd1 @ '' -s "'' @ get_settings_xml_path m @ ''"'';
                  source_pom = (case pom mv of
                                  None \<Rightarrow> src @ ''/pom.xml''
                                | Some p \<Rightarrow> if p \<noteq> [] then p else src @ ''/pom.xml'')
              in andthen (perform (ModifyPomFile source_pom) (\<lambda>h. modify_pom_file w h source_pom))
                   (\<lambda>u.
                      let deploy_cmd3 = deploy_cmd2 @ '' -f "'' @ source_pom @ ''"''
                            @ (if arguments mv \<noteq> [] then join '' -D'' (arguments mv) else []);
                          deployment_repository = get_distribution_repository_url m
                      in execute_maven w
                           (deploy_cmd3 @ '' -DaltDeploymentRepository="''
                            @ ''Repository::default::'' @ deployment_repository @ ''"''))))\<close>

definition deploy_file :: "params \<Rightarrow> asset_world \<Rightarrow> unit step" where
  \<open>deploy_file m w =
     andthen (create_settings_xml m w)
       (\<lambda>written.
          case file_path m of
            None \<Rightarrow> raise ''TypeError''
          | Some fp \<Rightarrow>
              (let deploy_cmd = ''deploy:deploy-file''
                     @ '' -s "'' @ get_settings_xml_path m @ ''"''
                     @ '' -Dfile="'' @ fp @ ''"''
                     @ '' -DrepositoryId=Repository''
                     @ '' -DartifactId='' @ asset_id m
                     @ '' -DgroupId='' @ group_id m
                     @ '' -Dversion='' @ asset_version m
               in case select_classifier (atype m) (splitext_ext fp) of
                    Inl e \<Rightarrow> (\<lambda>h. (Inl e, []))
                  | Inr classifier \<Rightarrow>
                      andthen
                        (execute_maven w
                           (deploy_cmd @ classifier @ '' -Durl='' @ get_distribution_repository_url m))
                        (\<lambda>out.
                           perform
                             (SetAssetName (group_id m) (asset_id m) (asset_version m) (name m))
                             (set_asset_name w))))\<close>

text \<open>
  Lines 366 to 455 of \<open>upload_exchange_asset\<close>: the creation path chosen by the asset type,
  the file path and the maven options.
\<close>

definition upload_by_type :: "params \<Rightarrow> asset_world \<Rightarrow> string \<Rightarrow> string \<Rightarrow> unit step" where
  "upload_by_type m w cmd_base asset_identifier =
     (if atype m = Custom \<or> atype m = Oas \<or> atype m = Wsdl then
        andthen
          (perform (AnypointCli (cli_upload_cmd m cmd_base asset_identifier))
             (\<lambda>h. execute_anypoint_cli w h (cli_upload_cmd m cmd_base asset_identifier)))
          (\<lambda>out. ok ())
      else if atype m = Example \<or> atype m = Template \<or> atype m = Connector
              \<or> atype m = Extension \<or> atype m = Policy then
        if (atype m = Example \<or> atype m = Template) \<and> file_path m = None then
          (case maven m of
             None \<Rightarrow> raise ''TypeError''
           | Some mv \<Rightarrow>
               (case sources mv of
                  Some src \<Rightarrow> andthen (build_from_sources m w mv src) (\<lambda>out. ok ())
                | None \<Rightarrow>
                    fail_json
                      (''[upload_exchange_asset] asset type \"template\" or \"example\" requires either a project directory''
                       @ ''to build it or a file to just upload it'')))
        else deploy_file m w
      else ok ())"

text \<open>Lines 457 to 463: the metadata update that follows every creation path.\<close>

definition upload_exchange_asset ::
  "params \<Rightarrow> asset_world \<Rightarrow> asset_context \<Rightarrow> string \<Rightarrow> string \<Rightarrow> string step" where
  "upload_exchange_asset m w context cmd_base asset_identifier =
     andthen (upload_by_type m w cmd_base asset_identifier)
       (\<lambda>u.
          andthen
            (perform (ModifyExchangeAsset (group_id m) (asset_id m) (asset_version m))
               (\<lambda>h. modify_exchange_asset w h context))
            (\<lambda>out. ok ''Asset uploaded''))"

subsection \<open>run_module\<close>

record result =
  changed :: bool
  msg :: string

definition initial_result :: result where
  "initial_result = \<lparr>changed = False, msg = ''No action taken''\<rparr>"

definition empty_to_none :: "string option \<Rightarrow> string option" where
  "empty_to_none v = (if v = Some [] then None else v)"

text \<open>Lines 520 to 531: empty strings become \<open>None\<close>.\<close>

definition normalize_params :: "params \<Rightarrow> params" where
  "normalize_params m =
     m\<lparr>main_file := empty_to_none (main_file m),
       file_path := empty_to_none (file_path m),
       icon := empty_to_none (icon m),
       description := empty_to_none (description m),
       maven := (case maven m of
                   None \<Rightarrow> None
                 | Some mv \<Rightarrow> Some (mv\<lparr>sources := empty_to_none (sources mv)\<rparr>))\<rparr>"

text \<open>
  \<open>module.params['maven'].get('project_dir')\<close>: the sub-options of \<open>maven\<close> are
  \<open>sources\<close>, \<open>settings\<close>, \<open>pom\<close> and \<open>arguments\<close>; there is no key
  \<open>project_dir\<close>, so the lookup gives \<open>None\<close>.
\<close>

definition maven_get_project_dir :: "maven_opts \<Rightarrow> string option" where
  "maven_get_project_dir mv = None"

definition cmd_base_of :: "params \<Rightarrow> string \<Rightarrow> string" where
  \<open>cmd_base_of m cli =
     cli @ '' --bearer="'' @ bearer m @ ''"''
     @ '' --host="'' @ host m @ ''"''
     @ '' --organization="'' @ organization m @ ''"''
     @ '' exchange asset''\<close>

text \<open>Lines 553 to 589 of \<open>run_module\<close>: the actions taken once something has to be done.\<close>

definition call_modify :: "params \<Rightarrow> asset_world \<Rightarrow> asset_context \<Rightarrow> string step" where
  "call_modify m w context =
     perform (ModifyExchangeAsset (group_id m) (asset_id m) (asset_version m))
       (\<lambda>h. modify_exchange_asset w h context)"

definition call_cli :: "asset_world \<Rightarrow> string \<Rightarrow> string step" where
  "call_cli w cmd = perform (AnypointCli cmd) (\<lambda>h. execute_anypoint_cli w h cmd)"

definition run_actions :: "params \<Rightarrow> asset_world \<Rightarrow> asset_context \<Rightarrow> string \<Rightarrow> result step" where
  \<open>run_actions m w context cmd_base =
     (let asset_identifier = get_asset_identifier w (group_id m) (asset_id m) (asset_version m) in
      andthen
        (if state m = Present then
           if \<not> exists_on_exchange context then
             upload_exchange_asset m w context cmd_base asset_identifier
           else
             andthen
               (if deprecated context then
                  andthen (call_cli w (cmd_base @ '' undeprecate "'' @ asset_identifier @ ''"''))
                    (\<lambda>out. ok (Some out))
                else ok None)
               (\<lambda>output1.
                  if exchange_must_update context then call_modify m w context
                  else (case output1 of
                          None \<Rightarrow> raise ''UnboundLocalError''
                        | Some out \<Rightarrow> ok out))
         else if state m = Deprecated then
           andthen
             (if \<not> exists_on_exchange context then
                andthen (upload_exchange_asset m w context cmd_base asset_identifier)
                  (\<lambda>out. ok ())
              else ok ())
             (\<lambda>u. andthen
                (if exchange_must_update context then
                   andthen (call_modify m w context) (\<lambda>out. ok ())
                 else ok ())
                (\<lambda>u. call_cli w (cmd_base @ '' deprecate "'' @ asset_identifier @ ''"'')))
         else if state m = Absent then
           perform (DeleteExchangeAsset (group_id m) (asset_id m) (asset_version m))
             (delete_exchange_asset w)
         else raise ''UnboundLocalError'')
        (\<lambda>output. ok \<lparr>changed = True, msg = remove_newlines output\<rparr>))\<close>

definition run_module :: "params \<Rightarrow> asset_world \<Rightarrow> result step" where
  "run_module m0 w =
     andthen (get_anypointcli_path w)
       (\<lambda>found_cli. andthen
          (case found_cli of
             None \<Rightarrow> fail_json ''[run_module] anypoint-cli binary not present on host''
           | Some cli \<Rightarrow> ok cli)
       (\<lambda>cli. andthen (get_maven_path w)
          (\<lambda>found_mvn. andthen
             (case found_mvn of
                None \<Rightarrow> fail_json ''[run_module] maven binary not present on host''
              | Some mvn \<Rightarrow> ok mvn)
          (\<lambda>mvn.
             if check_mode m0 then ok initial_result
             else
               (let cmd_base = cmd_base_of m0 cli;
                    m = normalize_params m0
                in if state m = Present \<and> (atype m = Example \<or> atype m = Template)
                      \<and> (case maven m of None \<Rightarrow> True | Some mv \<Rightarrow> maven_get_project_dir mv \<noteq> None)
                   then fail_json ''asset type template or example requires a project directory to build it''
                   else if state m = Present
                      \<and> (atype m = Oas \<or> atype m = Wsdl \<or> atype m = Connector
                          \<or> atype m = Extension \<or> atype m = Policy)
                      \<and> file_path m = None
                   then fail_json
                     ''[run_module] asset type oas, wsdl, connector, extension or policy requires a file path to upload it''
                   else
                     andthen (get_context m w cmd_base)
                       (\<lambda>context.
                          if do_nothing context then ok initial_result
                          else run_actions m w context cmd_base))))))"

section \<open>The environment module: ap_account_environment.py\<close>

subsection \<open>Parameters and answers\<close>

datatype env_state = EnvPresent | EnvAbsent

datatype env_type = Design | Sandbox | Production

fun env_type_name :: "env_type \<Rightarrow> string" where
  "env_type_name Design = ''design''"
| "env_type_name Sandbox = ''sandbox''"
| "env_type_name Production = ''production''"

record env_params =
  env_name :: string
  env_state :: env_state
  env_bearer :: string
  env_host :: string
  env_organization :: string
  env_type :: env_type
  env_check_mode :: bool

text \<open>
  What \<open>json.loads\<close> returns. Python's \<open>None\<close> is \<open>JNull\<close>, so a field of the context or
  of the result that holds \<open>None\<close> holds \<open>JNull\<close>.
\<close>

datatype json = JNull | JBool bool | JNum int | JStr string | JArr "json list"
  | JObj "(string \<times> json) list"

record env_world =
  env_get_bin_path :: "string \<Rightarrow> string option"
  env_run_command :: "call list \<Rightarrow> string \<Rightarrow> int \<times> string"
  open_url :: "call list \<Rightarrow> string \<Rightarrow> string + string"
  json_loads :: "string \<Rightarrow> json option"

record env_context =
  env_do_nothing :: bool
  ctx_id :: json
  ctx_client_id :: json
  ctx_client_secret :: json

record env_output =
  out_id :: json
  out_client_id :: json
  out_client_secret :: json
  out_msg :: string

record env_result = result +
  res_id :: json
  res_client_id :: json
  res_client_secret :: json

subsection \<open>Helpers\<close>

definition env_get_anypointcli_path :: "env_world \<Rightarrow> string option step" where
  "env_get_anypointcli_path w = module_get_bin_path (env_get_bin_path w) ''anypoint-cli'' True"

definition env_execute_anypoint_cli :: "env_world \<Rightarrow> string \<Rightarrow> string step" where
  "env_execute_anypoint_cli w cmd =
     andthen (perform (AnypointCli cmd) (\<lambda>h. Inr (env_run_command w h cmd)))
       (\<lambda>result. if fst result \<noteq> 0 then fail_json (snd result) else ok (snd result))"

definition json_load :: "env_world \<Rightarrow> string \<Rightarrow> json step" where
  "json_load w body = (case json_loads w body of None \<Rightarrow> raise ''ValueError'' | Some j \<Rightarrow> ok j)"

definition execute_http_call :: "env_world \<Rightarrow> string \<Rightarrow> string step" where
  "execute_http_call w url =
     perform (HttpGet url)
       (\<lambda>h. case open_url w h url of
               Inl e \<Rightarrow> Inl (FailJson (''Error executinh HTTP call: '' @ e))
             | Inr body \<Rightarrow> Inr body)"

text \<open>\<open>d[key]\<close> on a parsed value: a missing key and a value that is no dictionary raise.\<close>

definition subscript :: "json \<Rightarrow> string \<Rightarrow> json step" where
  "subscript d k =
     (case d of
        JObj kvs \<Rightarrow> (case map_of kvs k of None \<Rightarrow> raise ''KeyError'' | Some v \<Rightarrow> ok v)
      | _ \<Rightarrow> raise ''TypeError'')"

text \<open>
  The loop of \<open>get_org_id\<close>: the id of the first item whose name is the organization. The
  loop runs over a list; over an empty dictionary or string it does nothing, and over anything
  else the first subscript or the iteration itself raises.
\<close>

fun find_org :: "string \<Rightarrow> json list \<Rightarrow> json step" where
  "find_org org [] = ok JNull"
| "find_org org (item # items) =
     andthen (subscript item ''name'')
       (\<lambda>n. if n = JStr org then subscript item ''id'' else find_org org items)"

definition get_org_id :: "env_params \<Rightarrow> env_world \<Rightarrow> json step" where
  "get_org_id m w =
     andthen (execute_http_call w (''https://'' @ env_host m @ ''/accounts/api/profile''))
       (\<lambda>body. andthen (json_load w body)
          (\<lambda>output. andthen (subscript output ''memberOfOrganizations'')
             (\<lambda>orgs. andthen
                (case orgs of
                   JArr items \<Rightarrow> find_org (env_organization m) items
                 | JObj kvs \<Rightarrow> if kvs = [] then ok JNull else raise ''TypeError''
                 | JStr s \<Rightarrow> if s = [] then ok JNull else raise ''TypeError''
                 | _ \<Rightarrow> raise ''TypeError'')
                (\<lambda>org_id.
                   if org_id = JNull then
                     fail_json (''Business Group {'' @ env_organization m @ ''} not found'')
                   else ok org_id))))"

subsection \<open>get_environment\<close>

definition describe_cmd :: "env_params \<Rightarrow> string \<Rightarrow> string" where
  \<open>describe_cmd m cmd_base = cmd_base @ '' describe'' @ '' "'' @ env_name m @ ''"'' @ '' --output json''\<close>

definition get_environment :: "env_params \<Rightarrow> env_world \<Rightarrow> string \<Rightarrow> json step" where
  "get_environment m w cmd_base =
     andthen
       (perform (Describe (describe_cmd m cmd_base))
          (\<lambda>h. Inr (env_run_command w h (describe_cmd m cmd_base))))
       (\<lambda>result.
          if fst result = 0 then json_load w (snd result)
          else if fst result = 255 \<and> remove_newlines (snd result) = ''Error: Environment not found''
            then ok (JObj [])
          else fail_json (snd result))"

definition get_env_client_secret :: "env_params \<Rightarrow> env_world \<Rightarrow> json \<Rightarrow> json \<Rightarrow> json step" where
  "get_env_client_secret m w org_id client_id =
     (case (org_id, client_id) of
        (JStr org, JStr client) \<Rightarrow>
          andthen
            (execute_http_call w
               (''https://'' @ env_host m @ ''/accounts/api/organizations/'' @ org @ ''/clients/''
                @ client))
            (\<lambda>body. andthen (json_load w body)
               (\<lambda>output.
                  case output of
                    JObj kvs \<Rightarrow> ok (case map_of kvs ''client_secret'' of None \<Rightarrow> JNull | Some v \<Rightarrow> v)
                  | _ \<Rightarrow> raise ''AttributeError''))
      | _ \<Rightarrow> raise ''TypeError'')"

subsection \<open>get_context of the environment module\<close>

definition env_initial_context :: env_context where
  "env_initial_context =
     \<lparr>env_do_nothing = False, ctx_id = JNull, ctx_client_id = JNull, ctx_client_secret = JNull\<rparr>"

definition env_get_context :: "env_params \<Rightarrow> env_world \<Rightarrow> string \<Rightarrow> env_context step" where
  "env_get_context m w cmd_base =
     andthen (get_environment m w cmd_base)
       (\<lambda>resp_json. andthen
          (if resp_json \<noteq> JObj [] then
             andthen (subscript resp_json ''ID'')
               (\<lambda>i. andthen (subscript resp_json ''Client ID'')
                  (\<lambda>c. ok (env_initial_context\<lparr>ctx_id := i, ctx_client_id := c\<rparr>)))
           else ok env_initial_context)
          (\<lambda>rv.
             if env_state m = EnvAbsent then ok (rv\<lparr>env_do_nothing := (ctx_id rv = JNull)\<rparr>)
             else if env_state m = EnvPresent then
               if ctx_id rv = JNull then ok (rv\<lparr>env_do_nothing := False\<rparr>)
               else
                 andthen (get_org_id m w)
                   (\<lambda>org_id. andthen (get_env_client_secret m w org_id (ctx_client_id rv))
                      (\<lambda>client_secret.
                         ok (rv\<lparr>ctx_client_secret := client_secret, env_do_nothing := True\<rparr>)))
             else ok rv))"

subsection \<open>create_environment, delete_environment and run_module\<close>

definition create_cmd :: "env_params \<Rightarrow> string \<Rightarrow> string" where
  \<open>create_cmd m cmd_base =
     cmd_base @ '' create --type '' @ env_type_name (env_type m) @ '' "'' @ env_name m @ ''"''\<close>

definition delete_cmd :: "env_params \<Rightarrow> string \<Rightarrow> string" where
  \<open>delete_cmd m cmd_base = cmd_base @ '' delete'' @ '' "'' @ env_name m @ ''"''\<close>

definition create_environment :: "env_params \<Rightarrow> env_world \<Rightarrow> string \<Rightarrow> env_output step" where
  "create_environment m w cmd_base =
     andthen (env_execute_anypoint_cli w (create_cmd m cmd_base))
       (\<lambda>resp. andthen (get_environment m w cmd_base)
          (\<lambda>resp_json. andthen (subscript resp_json ''ID'')
             (\<lambda>i. andthen (subscript resp_json ''Client ID'')
                (\<lambda>c. andthen (get_org_id m w)
                   (\<lambda>org_id. andthen (get_env_client_secret m w org_id c)
                      (\<lambda>client_secret.
                         ok \<lparr>out_id = i, out_client_id = c, out_client_secret = client_secret,
                             out_msg = ''environment created''\<rparr>))))))"

definition delete_environment :: "env_params \<Rightarrow> env_world \<Rightarrow> string \<Rightarrow> env_output step" where
  "delete_environment m w cmd_base =
     andthen (env_execute_anypoint_cli w (delete_cmd m cmd_base))
       (\<lambda>resp.
          ok \<lparr>out_id = JNull, out_client_id = JNull, out_client_secret = JNull,
              out_msg = ''environment deleted''\<rparr>)"

definition env_initial_result :: env_result where
  "env_initial_result =
     \<lparr>changed = False, msg = ''No action taken'', res_id = JNull, res_client_id = JNull,
      res_client_secret = JNull\<rparr>"

definition env_cmd_base_of :: "env_params \<Rightarrow> string \<Rightarrow> string" where
  \<open>env_cmd_base_of m cli =
     cli @ '' --bearer="'' @ env_bearer m @ ''"''
     @ '' --organization="'' @ env_organization m @ ''"''
     @ '' --host="'' @ env_host m @ ''"''
     @ '' account environment''\<close>

definition env_run_module :: "env_params \<Rightarrow> env_world \<Rightarrow> env_result step" where
  "env_run_module m w =
     andthen (env_get_anypointcli_path w)
       (\<lambda>found. andthen
          (case found of
             None \<Rightarrow> fail_json ''anypoint-cli binary not present on host''
           | Some cli \<Rightarrow> ok cli)
       (\<lambda>cli.
          if env_check_mode m then ok env_initial_result
          else
            (let cmd_base = env_cmd_base_of m cli in
             andthen (env_get_context m w cmd_base)
               (\<lambda>context.
                  let result1 = env_initial_result\<lparr>res_id := ctx_id context,
                                  res_client_id := ctx_client_id context,
                                  res_client_secret := ctx_client_secret context\<rparr>
                  in if env_do_nothing context then ok result1
                     else
                       andthen
                         (if env_state m = EnvPresent then create_environment m w cmd_base
                          else if env_state m = EnvAbsent then delete_environment m w cmd_base
                          else raise ''UnboundLocalError'')
                         (\<lambda>output.
                            ok (result1\<lparr>msg := out_msg output, res_id := out_id output,
                                  res_client_id := out_client_id output,
                                  res_client_secret := out_client_secret output,
                                  changed := True\<rparr>))))))"

section \<open>Concrete inputs\<close>

text \<open>
  A platform that applies what it is asked: the asset is on the exchange once a mutating call
  has been issued, it is never deprecated and its metadata never differ.
\<close>

definition demo_params :: params where
  "demo_params =
     \<lparr>name = ''My Asset'', state = Present, bearer = ''t'', host = ''h'', organization = ''o'',
      organization_id = ''oid'', atype = Custom, group_id = ''g'', asset_id = ''a'',
      asset_version = ''1.0.0'', api_version = ''1.0'', main_file = None, file_path = None,
      tags = [], description = None, icon = None, maven = None, check_mode = False\<rparr>"

definition demo_item :: asset_item where
  "demo_item = \<lparr>assetId = ''a'', groupId = ''g'', version = ''1.0.0'', item_type = ''custom''\<rparr>"

definition not_found_output :: query_output where
  "not_found_output = \<lparr>errors = [\<lparr>status = Some 404, message = Some ''Not Found''\<rparr>], assets = []\<rparr>"

definition demo_analysis :: analysis where
  "demo_analysis =
     \<lparr>must_update = False, must_update_name = False, must_update_icon = False,
      must_update_description = False, must_update_tags = False, is_deprecated = False\<rparr>"

definition demo_world :: asset_world where
  "demo_world =
     \<lparr>get_bin_path = (\<lambda>nm. Some (''/bin/'' @ nm)),
      ap_get_anypointcli_path = Inr (Some ''/bin/anypoint-cli''),
      look_exchange_asset_with_graphql =
        (\<lambda>h g a v. if filter mutating h = [] then Inr not_found_output
                    else Inr \<lparr>errors = [], assets = [demo_item]\<rparr>),
      analyze_asset = (\<lambda>h. Inr demo_analysis),
      execute_anypoint_cli = (\<lambda>h cmd. Inr ''done''),
      run_command = (\<lambda>h cmd. (0, ''BUILD SUCCESS'')),
      write_settings_xml = (\<lambda>h path. None),
      modify_pom_file = (\<lambda>h path. Inr ()),
      set_asset_name = (\<lambda>h. Inr ()),
      modify_exchange_asset = (\<lambda>h context. Inr ''Asset modified''),
      delete_exchange_asset = (\<lambda>h. Inr ''Asset deleted''),
      get_asset_identifier = (\<lambda>g a v. g @ ''/'' @ a @ ''/'' @ v)\<rparr>"

definition demo_zip_params :: params where
  "demo_zip_params = demo_params\<lparr>atype := Example, file_path := Some ''/tmp/app.zip''\<rparr>"

definition demo_deprecated_params :: params where
  "demo_deprecated_params = demo_params\<lparr>state := Deprecated\<rparr>"

text \<open>
  The two parameter checks of \<open>run_module\<close> (lines 533 to 546), read on the parameters as
  given: normalisation leaves \<open>state\<close>, \<open>type\<close> and the presence of \<open>maven\<close> unchanged, and
  \<open>maven.get('project_dir')\<close> is always \<open>None\<close>.
\<close>

definition requires_project_dir :: "params \<Rightarrow> bool" where
  "requires_project_dir m \<longleftrightarrow>
     state m = Present \<and> (atype m = Example \<or> atype m = Template) \<and> maven m = None"

definition requires_file_path :: "params \<Rightarrow> bool" where
  "requires_file_path m \<longleftrightarrow>
     state m = Present
     \<and> (atype m = Oas \<or> atype m = Wsdl \<or> atype m = Connector \<or> atype m = Extension
        \<or> atype m = Policy)
     \<and> empty_to_none (file_path m) = None"

text \<open>
  The upstream calls of an upload all succeed, whenever they are issued: the settings file is
  written, the build tool exits with 0, the descriptor is rewritten, and the helpers that set
  the name and update the metadata return.
\<close>

definition upstream_succeeds :: "asset_world \<Rightarrow> bool" where
  "upstream_succeeds w \<longleftrightarrow>
     (\<forall>h p. write_settings_xml w h p = None)
     \<and> (\<forall>h c. fst (run_command w h c) = 0)
     \<and> (\<forall>h p. modify_pom_file w h p = Inr ())
     \<and> (\<forall>h. set_asset_name w h = Inr ())
     \<and> (\<forall>h c. \<exists>out. modify_exchange_asset w h c = Inr out)"

definition demo_maven :: maven_opts where
  "demo_maven = \<lparr>sources = None, settings = None, pom = None, arguments = []\<rparr>"

definition demo_example_zip :: params where
  "demo_example_zip =
     demo_params\<lparr>atype := Example, file_path := Some ''/tmp/app.zip'', maven := Some demo_maven\<rparr>"

definition demo_example_jar :: params where
  "demo_example_jar =
     demo_params\<lparr>atype := Example, file_path := Some ''/tmp/app.jar'', maven := Some demo_maven\<rparr>"

definition demo_example_no_maven :: params where
  "demo_example_no_maven = demo_params\<lparr>atype := Example, file_path := Some ''/tmp/app.jar''\<rparr>"

text \<open>
  An account whose environment \<open>Dev\<close> exists once a mutating call has been issued, and one
  where it exists until then. Every command but \<open>describe\<close> succeeds.
\<close>

definition demo_env :: env_params where
  "demo_env =
     \<lparr>env_name = ''Dev'', env_state = EnvPresent, env_bearer = ''t'', env_host = ''h'',
      env_organization = ''o'', env_type = Sandbox, env_check_mode = False\<rparr>"

definition demo_env_absent :: env_params where
  "demo_env_absent = demo_env\<lparr>env_state := EnvAbsent\<rparr>"

definition demo_env_cmd_base :: string where
  "demo_env_cmd_base = env_cmd_base_of demo_env ''/bin/anypoint-cli''"

definition demo_json_loads :: "string \<Rightarrow> json option" where
  "demo_json_loads body =
     (if body = ''env'' then Some (JObj [(''ID'', JStr ''e1''), (''Client ID'', JStr ''c1'')])
      else if body = ''profile'' then
        Some (JObj [(''memberOfOrganizations'',
                     JArr [JObj [(''name'', JStr ''o''), (''id'', JStr ''oid'')]])])
      else if body = ''client'' then Some (JObj [(''client_secret'', JStr ''s3'')])
      else None)"

definition demo_open_url :: "call list \<Rightarrow> string \<Rightarrow> string + string" where
  "demo_open_url h url =
     (if url = ''https://h/accounts/api/profile'' then Inr ''profile'' else Inr ''client'')"

definition demo_env_world :: env_world where
  "demo_env_world =
     \<lparr>env_get_bin_path = (\<lambda>nm. Some (''/bin/'' @ nm)),
      env_run_command =
        (\<lambda>h cmd. if cmd = describe_cmd demo_env demo_env_cmd_base then
                     (if filter mutating h = [] then (255, ''Error: Environment not found'' @ [CHR 0x0A])
                      else (0, ''env''))
                   else (0, ''done'')),
      open_url = demo_open_url,
      json_loads = demo_json_loads\<rparr>"

definition demo_env_world_existing :: env_world where
  "demo_env_world_existing =
     \<lparr>env_get_bin_path = (\<lambda>nm. Some (''/bin/'' @ nm)),
      env_run_command =
        (\<lambda>h cmd. if cmd = describe_cmd demo_env demo_env_cmd_base then
                     (if filter mutating h = [] then (0, ''env'')
                      else (255, ''Error: Environment not found'' @ [CHR 0x0A]))
                   else (0, ''done'')),
      open_url = demo_open_url,
      json_loads = demo_json_loads\<rparr>"

definition demo_env_world_exit1 :: env_world where
  "demo_env_world_exit1 =
     \<lparr>env_get_bin_path = (\<lambda>nm. Some (''/bin/'' @ nm)),
      env_run_command = (\<lambda>h cmd. (1, ''Error: Environment not found'')),
      open_url = demo_open_url,
      json_loads = demo_json_loads\<rparr>"

text \<open>A step that issues no mutating call, whatever the history.\<close>

definition reads_only :: "'a step \<Rightarrow> bool" where
  "reads_only f \<longleftrightarrow> (\<forall>h. filter mutating (snd (f h)) = [])"

text \<open>
  The observed state satisfies the desired one. For an asset: the context that \<open>get_context\<close>
  derives says absent for target \<open>absent\<close>; present, no metadata to update and not deprecated for
  target \<open>present\<close>; present, no metadata to update and deprecated for target \<open>deprecated\<close>.
  For an environment: no id was found for target \<open>absent\<close>, one was found for \<open>present\<close>.
\<close>

definition asset_satisfied :: "params \<Rightarrow> asset_world \<Rightarrow> call list \<Rightarrow> bool" where
  "asset_satisfied m w h =
     (case fst (get_context m w [] h) of
        Inl e \<Rightarrow> False
      | Inr ctx \<Rightarrow>
          (case state m of
             Absent \<Rightarrow> \<not> exists_on_exchange ctx
           | Present \<Rightarrow>
               exists_on_exchange ctx \<and> \<not> exchange_must_update ctx \<and> \<not> deprecated ctx
           | Deprecated \<Rightarrow>
               exists_on_exchange ctx \<and> \<not> exchange_must_update ctx \<and> deprecated ctx))"

definition env_satisfied :: "env_params \<Rightarrow> env_world \<Rightarrow> call list \<Rightarrow> bool" where
  "env_satisfied m w h =
     (case env_get_bin_path w ''anypoint-cli'' of
        None \<Rightarrow> False
      | Some cli \<Rightarrow>
          (case fst (env_get_context m w (env_cmd_base_of m cli) h) of
             Inl e \<Rightarrow> False
           | Inr ctx \<Rightarrow>
               (case env_state m of
                  EnvAbsent \<Rightarrow> ctx_id ctx = JNull
                | EnvPresent \<Rightarrow> ctx_id ctx \<noteq> JNull)))"

text \<open>
  The classifier table in the words of the specification: the classifier of each pair of
  declared type and file extension; a pair that is not listed is a configuration error.
\<close>

definition spec_classifier_table :: "((asset_type \<times> string) \<times> string) list" where
  "spec_classifier_table =
     [((Connector, ''.zip''), ''studio-plugin''),
      ((Extension, ''.jar''), ''mule-plugin''),
      ((Policy, ''.jar''), ''mule-policy''),
      ((Example, ''.jar''), ''mule-application-example''),
      ((Template, ''.jar''), ''mule-application-template'')]"

section \<open>Steps\<close>

lemma andthen_ok: "andthen (ok x) g h = g x h"
  by (simp add: andthen_def ok_def split: prod.splits)

lemma andthen_fail_json: "andthen (fail_json e) g h = (Inl (FailJson e), [])"
  by (simp add: andthen_def fail_json_def)

lemma andthen_raise: "andthen (raise e) g h = (Inl (Raised e), [])"
  by (simp add: andthen_def raise_def)

lemma andthen_perform:
  "andthen (perform c a) g h =
     (case a h of
        Inl e \<Rightarrow> (Inl e, [c])
      | Inr x \<Rightarrow> (fst (g x (h @ [c])), c # snd (g x (h @ [c]))))"
  by (simp add: andthen_def perform_def split: sum.splits prod.splits)

lemma andthen_Inl: "f h = (Inl e, cs) \<Longrightarrow> andthen f g h = (Inl e, cs)"
  by (simp add: andthen_def)

lemma andthen_Inr:
  "f h = (Inr x, cs) \<Longrightarrow> andthen f g h = (fst (g x (h @ cs)), cs @ snd (g x (h @ cs)))"
  by (simp add: andthen_def split: prod.splits)

lemma andthen_eq_Inr:
  "andthen f g h = (Inr y, cs) \<longleftrightarrow>
     (\<exists>x cs1 cs2. f h = (Inr x, cs1) \<and> g x (h @ cs1) = (Inr y, cs2) \<and> cs = cs1 @ cs2)"
  by (auto simp: andthen_def split: prod.splits sum.splits)

section \<open>The asset lookup\<close>

lemma look_cases:
  "look_asset_on_exchange m w h =
     (case look_exchange_asset_with_graphql w h (group_id m) (asset_id m) (asset_version m) of
        Inl e \<Rightarrow> (Inl e, [LookGraphql (group_id m) (asset_id m) (asset_version m)])
      | Inr out \<Rightarrow>
          (case errors out of
             e # es \<Rightarrow>
               if status e \<noteq> Some 404 then
                 (case message e of
                    None \<Rightarrow> Inl (Raised ''KeyError'')
                  | Some ms \<Rightarrow> Inl (FailJson
                      (''[look_asset_on_exchange] Error looking for asset on exchange: '' @ ms)))
               else Inr None
           | [] \<Rightarrow>
               (case assets out of
                  [] \<Rightarrow> Inl (Raised ''IndexError'')
                | item # items \<Rightarrow>
                    if asset_id m = assetId item \<and> group_id m = groupId item
                       \<and> asset_version m = version item \<and> type_name (atype m) = item_type item
                    then Inr (Some (assetId item)) else Inr None),
           [LookGraphql (group_id m) (asset_id m) (asset_version m)]))"
  by (simp add: look_asset_on_exchange_def andthen_perform ok_def fail_json_def raise_def
      split: sum.splits list.splits option.splits)

lemma look_calls:
  "snd (look_asset_on_exchange m w h) = [LookGraphql (group_id m) (asset_id m) (asset_version m)]"
  by (simp add: look_cases split: sum.splits)

text \<open>
  C8. When the query answers, \<open>look_asset_on_exchange\<close> looks at the first reported error:
  with status 404 it returns \<open>None\<close> without failing, with any other status (or none) it
  fails. With no error it takes the first record and returns its asset id only if asset id,
  group id, version and type all equal the requested ones, and \<open>None\<close> otherwise. It issues
  the query and nothing else.
\<close>

theorem look_asset_on_exchange_classifies:
  assumes "look_exchange_asset_with_graphql w h (group_id m) (asset_id m) (asset_version m) = Inr out"
  shows "(\<forall>e es. errors out = e # es \<and> status e = Some 404 \<longrightarrow>
            fst (look_asset_on_exchange m w h) = Inr None)
       \<and> (\<forall>e es. errors out = e # es \<and> status e \<noteq> Some 404 \<longrightarrow>
            (\<exists>f. fst (look_asset_on_exchange m w h) = Inl f))
       \<and> (\<forall>item items. errors out = [] \<and> assets out = item # items \<longrightarrow>
            fst (look_asset_on_exchange m w h) =
              Inr (if asset_id m = assetId item \<and> group_id m = groupId item
                      \<and> asset_version m = version item \<and> type_name (atype m) = item_type item
                   then Some (assetId item) else None))
       \<and> snd (look_asset_on_exchange m w h) = [LookGraphql (group_id m) (asset_id m) (asset_version m)]"
  using assms by (auto simp: look_cases split: option.splits)

lemma demo_params_simps:
  "group_id demo_params = ''g''" "asset_id demo_params = ''a''"
  "asset_version demo_params = ''1.0.0''" "atype demo_params = Custom"
  "state demo_params = Present" "file_path demo_params = None" "maven demo_params = None"
  "check_mode demo_params = False" "main_file demo_params = None" "name demo_params = ''My Asset''"
  "bearer demo_params = ''t''" "host demo_params = ''h''" "organization demo_params = ''o''"
  "icon demo_params = None" "description demo_params = None"
  by (simp_all add: demo_params_def)

lemma demo_world_simps:
  "get_bin_path demo_world nm = Some (''/bin/'' @ nm)"
  "ap_get_anypointcli_path demo_world = Inr (Some ''/bin/anypoint-cli'')"
  "look_exchange_asset_with_graphql demo_world h g a v =
     (if filter mutating h = [] then Inr not_found_output
      else Inr \<lparr>errors = [], assets = [demo_item]\<rparr>)"
  "analyze_asset demo_world h = Inr demo_analysis"
  "execute_anypoint_cli demo_world h cmd = Inr ''done''"
  "run_command demo_world h cmd = (0, ''BUILD SUCCESS'')"
  "write_settings_xml demo_world h path = None"
  "modify_pom_file demo_world h path = Inr ()"
  "set_asset_name demo_world h = Inr ()"
  "modify_exchange_asset demo_world h context = Inr ''Asset modified''"
  "delete_exchange_asset demo_world h = Inr ''Asset deleted''"
  "get_asset_identifier demo_world g a v = g @ ''/'' @ a @ ''/'' @ v"
  by (simp_all add: demo_world_def)

theorem look_asset_on_exchange_classifies_witness:
  "look_exchange_asset_with_graphql demo_world [] (group_id demo_params) (asset_id demo_params)
       (asset_version demo_params) = Inr not_found_output
   \<and> fst (look_asset_on_exchange demo_params demo_world []) = Inr None
   \<and> snd (look_asset_on_exchange demo_params demo_world []) = [LookGraphql ''g'' ''a'' ''1.0.0'']"
proof -
  have q: "look_exchange_asset_with_graphql demo_world [] (group_id demo_params)
      (asset_id demo_params) (asset_version demo_params) = Inr not_found_output"
    by (simp add: demo_world_simps)
  from look_asset_on_exchange_classifies [OF q]
  have "fst (look_asset_on_exchange demo_params demo_world []) = Inr None"
    and "snd (look_asset_on_exchange demo_params demo_world [])
          = [LookGraphql (group_id demo_params) (asset_id demo_params) (asset_version demo_params)]"
    by (simp_all add: not_found_output_def)
  with q show ?thesis by (simp add: demo_params_simps)
qed

section \<open>The decision table of the asset module\<close>

lemma get_context_cases:
  "get_context m w cb h =
     (case look_asset_on_exchange m w h of
        (Inl e, cs) \<Rightarrow> (Inl e, cs)
      | (Inr found, cs) \<Rightarrow>
          if found = None then
            (Inr (initial_context\<lparr>do_nothing := (state m = Absent)\<rparr>), cs)
          else if state m = Absent then
            (Inr (initial_context\<lparr>exists_on_exchange := True, do_nothing := False\<rparr>), cs)
          else
            (case analyze_asset w (h @ cs) of
               Inl e \<Rightarrow> (Inl e, cs @ [AnalyzeAsset (group_id m) (asset_id m) (asset_version m)])
             | Inr res \<Rightarrow>
                 (Inr \<lparr>do_nothing = (if state m = Present
                                       then \<not> must_update res \<and> \<not> is_deprecated res
                                       else is_deprecated res),
                       exists_on_exchange = True,
                       exchange_must_update = must_update res,
                       exchange_must_update_name = must_update_name res,
                       exchange_must_update_icon = must_update_icon res,
                       exchange_must_update_description = must_update_description res,
                       exchange_must_update_tags = must_update_tags res,
                       deprecated = is_deprecated res\<rparr>,
                  cs @ [AnalyzeAsset (group_id m) (asset_id m) (asset_version m)])))"
  by (cases "state m")
     (auto simp: get_context_def andthen_def ok_def perform_def initial_context_def Let_def
       split: prod.splits sum.splits)

text \<open>
  C1. Whenever \<open>get_context\<close> returns a context: for target \<open>absent\<close>, \<open>do_nothing\<close> holds
  exactly when the asset does not exist; for \<open>present\<close> on an existing asset, exactly when
  \<open>exchange_must_update\<close> is unset and the asset is not deprecated; for \<open>deprecated\<close> on an
  existing asset, exactly when the asset is deprecated; for \<open>present\<close> or \<open>deprecated\<close> on an
  asset that does not exist, never. The asset exists exactly when the lookup returned an id,
  and the flags of the context are those that \<open>analyze_asset\<close> answered. Where the aggregate
  flag is the disjunction of the four field flags, \<open>do_nothing\<close> for \<open>present\<close> says that no
  field flag is set and the asset is not deprecated.
\<close>

theorem get_context_decision_table:
  assumes "get_context m w cmd_base h = (Inr ctx, cs)"
  shows "(state m = Absent \<longrightarrow> do_nothing ctx = (\<not> exists_on_exchange ctx))
       \<and> (state m = Present \<and> exists_on_exchange ctx \<longrightarrow>
            do_nothing ctx = (\<not> exchange_must_update ctx \<and> \<not> deprecated ctx))
       \<and> (state m = Deprecated \<and> exists_on_exchange ctx \<longrightarrow> do_nothing ctx = deprecated ctx)
       \<and> ((state m = Present \<or> state m = Deprecated) \<and> \<not> exists_on_exchange ctx \<longrightarrow>
            \<not> do_nothing ctx)
       \<and> (\<exists>found. fst (look_asset_on_exchange m w h) = Inr found
             \<and> exists_on_exchange ctx = (found \<noteq> None))
       \<and> ((state m = Present \<or> state m = Deprecated) \<and> exists_on_exchange ctx \<longrightarrow>
            (\<exists>res. analyze_asset w (h @ [LookGraphql (group_id m) (asset_id m) (asset_version m)])
                     = Inr res
               \<and> exchange_must_update ctx = must_update res
               \<and> exchange_must_update_name ctx = must_update_name res
               \<and> exchange_must_update_icon ctx = must_update_icon res
               \<and> exchange_must_update_description ctx = must_update_description res
               \<and> exchange_must_update_tags ctx = must_update_tags res
               \<and> deprecated ctx = is_deprecated res))
       \<and> (state m = Present \<and> exists_on_exchange ctx
           \<and> exchange_must_update ctx =
               (exchange_must_update_name ctx \<or> exchange_must_update_icon ctx
                \<or> exchange_must_update_description ctx \<or> exchange_must_update_tags ctx) \<longrightarrow>
            do_nothing ctx =
              (\<not> exchange_must_update_name ctx \<and> \<not> exchange_must_update_icon ctx
               \<and> \<not> exchange_must_update_description ctx \<and> \<not> exchange_must_update_tags ctx
               \<and> \<not> deprecated ctx))"
proof -
  have calls: "snd (look_asset_on_exchange m w h)
      = [LookGraphql (group_id m) (asset_id m) (asset_version m)]"
    by (rule look_calls)
  obtain r where look: "look_asset_on_exchange m w h
      = (r, [LookGraphql (group_id m) (asset_id m) (asset_version m)])"
    using calls by (cases "look_asset_on_exchange m w h") simp
  show ?thesis
    using assms
    by (cases "state m")
       (auto simp: get_context_cases look initial_context_def split: sum.splits if_splits)
qed

lemma demo_get_context:
  "get_context demo_params demo_world cb [AnypointCli ''x''] =
     (Inr (initial_context\<lparr>do_nothing := True, exists_on_exchange := True\<rparr>),
      [LookGraphql ''g'' ''a'' ''1.0.0'', AnalyzeAsset ''g'' ''a'' ''1.0.0''])"
  by (simp add: get_context_cases look_cases demo_world_simps demo_params_simps demo_item_def
      demo_analysis_def initial_context_def)

theorem get_context_decision_table_witness:
  "get_context demo_params demo_world [] [AnypointCli ''x''] =
     (Inr (initial_context\<lparr>do_nothing := True, exists_on_exchange := True\<rparr>),
      [LookGraphql ''g'' ''a'' ''1.0.0'', AnalyzeAsset ''g'' ''a'' ''1.0.0''])
   \<and> state demo_params = Present
   \<and> exists_on_exchange (initial_context\<lparr>do_nothing := True, exists_on_exchange := True\<rparr>)
   \<and> do_nothing (initial_context\<lparr>do_nothing := True, exists_on_exchange := True\<rparr>)
   \<and> \<not> exchange_must_update (initial_context\<lparr>do_nothing := True, exists_on_exchange := True\<rparr>)
   \<and> \<not> deprecated (initial_context\<lparr>do_nothing := True, exists_on_exchange := True\<rparr>)"
  using get_context_decision_table [OF demo_get_context [of "[]"]]
  by (simp add: demo_get_context demo_params_simps initial_context_def)

section \<open>The creation paths of an asset\<close>

lemma splitext_ext_examples:
  "splitext_ext ''/tmp/app.jar'' = ''.jar''"
  "splitext_ext ''/tmp/app.zip'' = ''.zip''"
  "splitext_ext ''/tmp.d/app'' = ''''"
  "splitext_ext ''/tmp/.bashrc'' = ''''"
  "splitext_ext ''a.tar.gz'' = ''.gz''"
  by (simp_all add: splitext_ext_def)

lemma create_settings_xml_cases:
  "create_settings_xml m w h =
     (case write_settings_xml w h (get_settings_xml_path m) of
        Some e \<Rightarrow> Inl (FailJson
          (''[create_settings_xml] Can not create settings.xml file dynamically ['' @ e @ '']''))
      | None \<Rightarrow> Inr True,
      [WriteSettingsXml (get_settings_xml_path m)])"
  by (simp add: create_settings_xml_def perform_def)

lemma deploy_file_rejected:
  assumes "file_path m = Some fp" and "select_classifier (atype m) (splitext_ext fp) = Inl e"
  shows "deploy_file m w h =
     (case write_settings_xml w h (get_settings_xml_path m) of
        Some x \<Rightarrow> Inl (FailJson
          (''[create_settings_xml] Can not create settings.xml file dynamically ['' @ x @ '']''))
      | None \<Rightarrow> Inl e,
      [WriteSettingsXml (get_settings_xml_path m)])"
  using assms
  by (simp add: deploy_file_def andthen_def create_settings_xml_cases split: option.splits)

lemma select_classifier_outside_table:
  assumes "(t, ext) \<notin> {(Connector, ''.zip''), (Extension, ''.jar''), (Policy, ''.jar''),
                        (Example, ''.jar''), (Template, ''.jar'')}"
  shows "select_classifier t ext = Inl (FailJson
           (''[upload_exchange_asset] invalid file extension for '' @ type_name t @ '' asset type ''
            @ ''(only supported .zip for mule 3 and .jar for mule 4)''))"
  using assms unfolding select_classifier_def by auto

lemma upload_takes_deploy_file:
  assumes "file_path m = Some fp"
    and "atype m \<in> {Example, Template, Connector, Extension, Policy}"
  shows "upload_by_type m w cb ai = deploy_file m w"
  using assms unfolding upload_by_type_def by auto

lemma demo_zip_params_simps:
  "file_path demo_zip_params = Some ''/tmp/app.zip''" "atype demo_zip_params = Example"
  "group_id demo_zip_params = ''g''" "asset_id demo_zip_params = ''a''"
  "asset_version demo_zip_params = ''1.0.0''" "state demo_zip_params = Present"
  "check_mode demo_zip_params = False" "name demo_zip_params = ''My Asset''"
  by (simp_all add: demo_zip_params_def demo_params_def)

lemma upload_success:
  assumes "upload_exchange_asset m w ctx cb ai h = (Inr r, cs)"
  shows "r = ''Asset uploaded''
       \<and> (\<exists>cs1. upload_by_type m w cb ai h = (Inr (), cs1)
             \<and> cs = cs1 @ [ModifyExchangeAsset (group_id m) (asset_id m) (asset_version m)])"
  using assms unfolding upload_exchange_asset_def andthen_eq_Inr
  by (auto simp: perform_def ok_def split: sum.splits)

lemma upload_cases:
  "upload_exchange_asset m w ctx cb ai h =
     (case upload_by_type m w cb ai h of
        (Inl e, cs) \<Rightarrow> (Inl e, cs)
      | (Inr u, cs) \<Rightarrow>
          (case modify_exchange_asset w (h @ cs) ctx of
             Inl e \<Rightarrow> Inl e
           | Inr out \<Rightarrow> Inr ''Asset uploaded'',
           cs @ [ModifyExchangeAsset (group_id m) (asset_id m) (asset_version m)]))"
  by (simp add: upload_exchange_asset_def andthen_def perform_def ok_def
      split: prod.splits sum.splits)

section \<open>The actions of the asset module\<close>

lemma run_actions_deprecated_absent:
  assumes "state m = Deprecated" and "\<not> exists_on_exchange ctx"
  shows "run_actions m w ctx cb h =
     (let ident = get_asset_identifier w (group_id m) (asset_id m) (asset_version m);
          modify = ModifyExchangeAsset (group_id m) (asset_id m) (asset_version m);
          deprecate = cb @ '' deprecate '' @ [CHR 0x22] @ ident @ [CHR 0x22]
      in case upload_exchange_asset m w ctx cb ident h of
           (Inl e, up) \<Rightarrow> (Inl e, up)
         | (Inr out, up) \<Rightarrow>
             if exchange_must_update ctx then
               (case modify_exchange_asset w (h @ up) ctx of
                  Inl e \<Rightarrow> (Inl e, up @ [modify])
                | Inr out2 \<Rightarrow>
                    (case execute_anypoint_cli w (h @ up @ [modify]) deprecate of
                       Inl e \<Rightarrow> Inl e
                     | Inr out3 \<Rightarrow> Inr \<lparr>changed = True, msg = remove_newlines out3\<rparr>,
                     up @ [modify, AnypointCli deprecate]))
             else
               (case execute_anypoint_cli w (h @ up) deprecate of
                  Inl e \<Rightarrow> Inl e
                | Inr out3 \<Rightarrow> Inr \<lparr>changed = True, msg = remove_newlines out3\<rparr>,
                up @ [AnypointCli deprecate]))"
proof -
  obtain r up where up: "upload_exchange_asset m w ctx cb
      (get_asset_identifier w (group_id m) (asset_id m) (asset_version m)) h = (r, up)"
    by (cases "upload_exchange_asset m w ctx cb
      (get_asset_identifier w (group_id m) (asset_id m) (asset_version m)) h")
  show ?thesis
  proof (cases r)
    case (Inl e)
    with up assms show ?thesis
      by (simp add: run_actions_def Let_def andthen_def)
  next
    case (Inr out)
    with up assms show ?thesis
      by (cases "exchange_must_update ctx")
         (auto simp: run_actions_def Let_def andthen_def perform_def ok_def call_cli_def
           call_modify_def split: sum.splits)
  qed
qed

text \<open>
  C5. With target \<open>deprecated\<close> and a context that says the asset does not exist, the calls of
  \<open>run_actions\<close> are, in this order, those of \<open>upload_exchange_asset\<close>, then the metadata
  update if \<open>exchange_must_update\<close> is set, then the \<open>deprecate\<close> command: every run issues
  a prefix of that sequence, and a run that ends without failure issues all of it. A context
  that \<open>get_context\<close> returns for an asset that does not exist has the flag unset.
\<close>

theorem deprecated_on_absent_order:
  assumes "state m = Deprecated" and "\<not> exists_on_exchange ctx"
    and "ident = get_asset_identifier w (group_id m) (asset_id m) (asset_version m)"
    and "planned = snd (upload_exchange_asset m w ctx cb ident h)
           @ (if exchange_must_update ctx
              then [ModifyExchangeAsset (group_id m) (asset_id m) (asset_version m)] else [])
           @ [AnypointCli (cb @ '' deprecate '' @ [CHR 0x22] @ ident @ [CHR 0x22])]"
  shows "prefix (snd (run_actions m w ctx cb h)) planned
       \<and> (\<forall>res. fst (run_actions m w ctx cb h) = Inr res \<longrightarrow>
            snd (run_actions m w ctx cb h) = planned
            \<and> fst (upload_exchange_asset m w ctx cb ident h) = Inr ''Asset uploaded''
            \<and> changed res)
       \<and> (\<forall>ctx' cs h'. get_context m w cb h' = (Inr ctx', cs) \<and> \<not> exists_on_exchange ctx' \<longrightarrow>
            \<not> exchange_must_update ctx')"
proof -
  obtain r up where up: "upload_exchange_asset m w ctx cb ident h = (r, up)"
    by (cases "upload_exchange_asset m w ctx cb ident h")
  have ok_out: "out = ''Asset uploaded''" if "r = Inr out" for out
    using upload_success [of m w ctx cb ident h out up] up that by simp
  have order: "prefix (snd (run_actions m w ctx cb h)) planned
       \<and> (\<forall>res. fst (run_actions m w ctx cb h) = Inr res \<longrightarrow>
            snd (run_actions m w ctx cb h) = planned
            \<and> fst (upload_exchange_asset m w ctx cb ident h) = Inr ''Asset uploaded''
            \<and> changed res)"
    using ok_out
    by (auto simp: run_actions_deprecated_absent [OF assms(1,2)] assms(3)[symmetric] assms(4)
        up Let_def split: sum.splits)
  have flag: "\<not> exchange_must_update ctx'"
    if "get_context m w cb h' = (Inr ctx', cs)" and "\<not> exists_on_exchange ctx'" for ctx' cs h'
    using that assms(1)
    by (auto simp: get_context_cases initial_context_def split: prod.splits sum.splits if_splits)
  from order flag show ?thesis by blast
qed

lemma demo_deprecated_params_simps:
  "group_id demo_deprecated_params = ''g''" "asset_id demo_deprecated_params = ''a''"
  "asset_version demo_deprecated_params = ''1.0.0''" "atype demo_deprecated_params = Custom"
  "state demo_deprecated_params = Deprecated" "file_path demo_deprecated_params = None"
  "main_file demo_deprecated_params = None" "name demo_deprecated_params = ''My Asset''"
  by (simp_all add: demo_deprecated_params_def demo_params_def)

lemma upload_by_type_cli:
  assumes "atype m = Custom \<or> atype m = Oas \<or> atype m = Wsdl"
  shows "upload_by_type m w cb ai h =
     (case execute_anypoint_cli w h (cli_upload_cmd m cb ai) of
        Inl e \<Rightarrow> Inl e | Inr out \<Rightarrow> Inr (),
      [AnypointCli (cli_upload_cmd m cb ai)])"
  using assms
  by (auto simp: upload_by_type_def andthen_def perform_def ok_def split: sum.splits)

lemma demo_upload:
  \<open>upload_exchange_asset demo_deprecated_params demo_world initial_context ''cli'' ''g/a/1.0.0'' [] =
     (Inr ''Asset uploaded'',
      [AnypointCli ''cli upload --name "My Asset" --classifier "custom" "g/a/1.0.0"'',
       ModifyExchangeAsset ''g'' ''a'' ''1.0.0''])\<close>
  by (simp add: upload_cases upload_by_type_cli demo_deprecated_params_simps demo_world_simps
      cli_upload_cmd_def)

theorem deprecated_on_absent_order_witness:
  \<open>state demo_deprecated_params = Deprecated
   \<and> \<not> exists_on_exchange initial_context
   \<and> \<not> exchange_must_update initial_context
   \<and> run_actions demo_deprecated_params demo_world initial_context ''cli'' [] =
       (Inr \<lparr>changed = True, msg = ''done''\<rparr>,
        [AnypointCli ''cli upload --name "My Asset" --classifier "custom" "g/a/1.0.0"'',
         ModifyExchangeAsset ''g'' ''a'' ''1.0.0'',
         AnypointCli ''cli deprecate "g/a/1.0.0"''])\<close>
proof -
  have a1: "state demo_deprecated_params = Deprecated"
    by (simp add: demo_deprecated_params_simps)
  have a2: "\<not> exists_on_exchange initial_context" and a2': "\<not> exchange_must_update initial_context"
    by (simp_all add: initial_context_def)
  have a3: "''g/a/1.0.0'' = get_asset_identifier demo_world (group_id demo_deprecated_params)
      (asset_id demo_deprecated_params) (asset_version demo_deprecated_params)"
    by (simp add: demo_world_simps demo_deprecated_params_simps)
  have a4: \<open>[AnypointCli ''cli upload --name "My Asset" --classifier "custom" "g/a/1.0.0"'',
         ModifyExchangeAsset ''g'' ''a'' ''1.0.0'',
         AnypointCli ''cli deprecate "g/a/1.0.0"'']
      = snd (upload_exchange_asset demo_deprecated_params demo_world initial_context ''cli''
              ''g/a/1.0.0'' [])
        @ (if exchange_must_update initial_context
           then [ModifyExchangeAsset (group_id demo_deprecated_params)
                   (asset_id demo_deprecated_params) (asset_version demo_deprecated_params)]
           else [])
        @ [AnypointCli (''cli'' @ '' deprecate '' @ [CHR 0x22] @ ''g/a/1.0.0'' @ [CHR 0x22])]\<close>
    by (simp add: demo_upload a2')
  have res: "fst (run_actions demo_deprecated_params demo_world initial_context ''cli'' [])
      = Inr \<lparr>changed = True, msg = ''done''\<rparr>"
    by (simp add: run_actions_deprecated_absent [OF a1 a2] Let_def demo_deprecated_params_simps
        demo_upload a2' demo_world_simps remove_newlines_def)
  from deprecated_on_absent_order [OF a1 a2 a3 a4] res
  have \<open>snd (run_actions demo_deprecated_params demo_world initial_context ''cli'' [])
      = [AnypointCli ''cli upload --name "My Asset" --classifier "custom" "g/a/1.0.0"'',
         ModifyExchangeAsset ''g'' ''a'' ''1.0.0'',
         AnypointCli ''cli deprecate "g/a/1.0.0"'']\<close>
    by blast
  with res a1 a2 a2' show ?thesis
    by (simp add: prod_eq_iff)
qed

section \<open>Runs of the asset module\<close>

lemma normalize_params_simps:
  "state (normalize_params m) = state m" "atype (normalize_params m) = atype m"
  "group_id (normalize_params m) = group_id m" "asset_id (normalize_params m) = asset_id m"
  "asset_version (normalize_params m) = asset_version m" "name (normalize_params m) = name m"
  "host (normalize_params m) = host m"
  "file_path (normalize_params m) = empty_to_none (file_path m)"
  "main_file (normalize_params m) = empty_to_none (main_file m)"
  "maven (normalize_params m) =
     (case maven m of None \<Rightarrow> None
      | Some mv \<Rightarrow> Some (mv\<lparr>sources := empty_to_none (sources mv)\<rparr>))"
  by (simp_all add: normalize_params_def)

lemma look_normalize:
  "look_asset_on_exchange (normalize_params m) w h = look_asset_on_exchange m w h"
  by (simp add: look_cases normalize_params_simps split: sum.splits list.splits)

lemma get_context_normalize:
  "get_context (normalize_params m) w cb h = get_context m w cb' h"
  by (simp add: get_context_cases look_normalize normalize_params_simps
      split: prod.splits sum.splits)

lemma run_module_cases:
  "run_module m0 w h =
     (case ap_get_anypointcli_path w of
        Inl e \<Rightarrow> (Inl e, [])
      | Inr None \<Rightarrow>
          (Inl (FailJson ''[run_module] anypoint-cli binary not present on host''), [])
      | Inr (Some cli) \<Rightarrow>
          (case get_bin_path w ''mvn'' of
             None \<Rightarrow> (Inl (FailJson ''Failed to find required executable mvn''), [])
           | Some mvn \<Rightarrow>
               if check_mode m0 then (Inr initial_result, [])
               else if requires_project_dir m0 then
                 (Inl (FailJson
                    ''asset type template or example requires a project directory to build it''), [])
               else if requires_file_path m0 then
                 (Inl (FailJson
                    ''[run_module] asset type oas, wsdl, connector, extension or policy requires a file path to upload it''), [])
               else
                 (case get_context m0 w [] h of
                    (Inl e, cs) \<Rightarrow> (Inl e, cs)
                  | (Inr context, cs) \<Rightarrow>
                      if do_nothing context then (Inr initial_result, cs)
                      else
                        (fst (run_actions (normalize_params m0) w context (cmd_base_of m0 cli)
                                (h @ cs)),
                         cs @ snd (run_actions (normalize_params m0) w context
                                     (cmd_base_of m0 cli) (h @ cs))))))"
proof -
  have v1: "(state (normalize_params m0) = Present
        \<and> (atype (normalize_params m0) = Example \<or> atype (normalize_params m0) = Template)
        \<and> (case maven (normalize_params m0) of None \<Rightarrow> True
            | Some mv \<Rightarrow> maven_get_project_dir mv \<noteq> None)) = requires_project_dir m0"
    by (simp add: requires_project_dir_def normalize_params_simps maven_get_project_dir_def
        split: option.splits)
  have v2: "(state (normalize_params m0) = Present
        \<and> (atype (normalize_params m0) = Oas \<or> atype (normalize_params m0) = Wsdl
            \<or> atype (normalize_params m0) = Connector \<or> atype (normalize_params m0) = Extension
            \<or> atype (normalize_params m0) = Policy)
        \<and> file_path (normalize_params m0) = None) = requires_file_path m0"
    by (simp add: requires_file_path_def normalize_params_simps)
  note ctx = get_context_normalize [where cb' = "[]"]
  show ?thesis
  proof (cases "ap_get_anypointcli_path w")
    case (Inl e)
    then show ?thesis
      by (simp add: run_module_def get_anypointcli_path_def andthen_def)
  next
    case found: (Inr found)
    show ?thesis
    proof (cases found)
      case None
      with found show ?thesis
        by (simp add: run_module_def get_anypointcli_path_def andthen_def fail_json_def)
    next
      case cli: (Some cli)
      have start: "andthen (get_anypointcli_path w) g h = g (Some cli) h" for g :: "_ \<Rightarrow> result step"
        using found cli by (simp add: get_anypointcli_path_def andthen_def)
      show ?thesis
      proof (cases "get_bin_path w ''mvn''")
        case None
        with found cli show ?thesis
          by (simp add: run_module_def start get_maven_path_def module_get_bin_path_def
              andthen_ok andthen_fail_json)
      next
        case (Some mvn)
        with found cli show ?thesis
          unfolding run_module_def start get_maven_path_def module_get_bin_path_def Let_def v1 v2
          by (cases "get_context m0 w [] h")
             (auto simp: andthen_ok andthen_def ok_def fail_json_def ctx case_prod_beta
               split: sum.splits)
      qed
    qed
  qed
qed

lemma run_actions_present_absent:
  assumes "state m = Present" and "\<not> exists_on_exchange ctx"
  shows "run_actions m w ctx cb h =
     (case upload_exchange_asset m w ctx cb
             (get_asset_identifier w (group_id m) (asset_id m) (asset_version m)) h of
        (Inl e, up) \<Rightarrow> (Inl e, up)
      | (Inr out, up) \<Rightarrow> (Inr \<lparr>changed = True, msg = remove_newlines out\<rparr>, up))"
  using assms
  by (simp add: run_actions_def Let_def andthen_def ok_def split: prod.splits sum.splits)

lemma remove_newlines_uploaded: "remove_newlines ''Asset uploaded'' = ''Asset uploaded''"
  by (simp add: remove_newlines_def)

lemma get_context_not_found:
  assumes "fst (look_asset_on_exchange m w h) = Inr None" and "state m \<noteq> Absent"
  shows "get_context m w cb h =
           (Inr initial_context, [LookGraphql (group_id m) (asset_id m) (asset_version m)])"
proof -
  have "look_asset_on_exchange m w h =
      (Inr None, [LookGraphql (group_id m) (asset_id m) (asset_version m)])"
    using assms(1) look_calls [of m w h] by (simp add: prod_eq_iff)
  then show ?thesis
    using assms(2) by (simp add: get_context_cases initial_context_def)
qed

text \<open>
  C6. Whatever the context, a creation path of \<open>upload_exchange_asset\<close> that completes is
  followed by the metadata update: a successful upload ends with that call. For an asset that
  is not on the exchange, with target \<open>present\<close>, type \<open>custom\<close> and no file, the run issues
  the query, one \<open>upload\<close> command that names no file, and one metadata update, and reports
  \<open>changed = True\<close>.
\<close>

theorem upload_ends_with_metadata_update:
  \<open>(upload_by_type m w cb ident h = (Inr u, created) \<longrightarrow>
      snd (upload_exchange_asset m w ctx cb ident h)
        = created @ [ModifyExchangeAsset (group_id m) (asset_id m) (asset_version m)])
   \<and> (upload_exchange_asset m w ctx cb ident h = (Inr r, cs) \<longrightarrow>
        r = ''Asset uploaded'' \<and> cs \<noteq> []
        \<and> last cs = ModifyExchangeAsset (group_id m) (asset_id m) (asset_version m))
   \<and> (state rm = Present \<and> atype rm = Custom \<and> empty_to_none (file_path rm) = None
        \<and> \<not> check_mode rm
        \<and> ap_get_anypointcli_path rw = Inr (Some cli) \<and> get_bin_path rw ''mvn'' = Some mvn
        \<and> fst (look_asset_on_exchange rm rw rh) = Inr None
        \<and> look = LookGraphql (group_id rm) (asset_id rm) (asset_version rm)
        \<and> upload_cmd = cmd_base_of rm cli @ '' upload'' @ '' --name "'' @ name rm @ ''"''
             @ (case empty_to_none (main_file rm) of None \<Rightarrow> []
                | Some f \<Rightarrow> '' --mainFile "'' @ f @ ''"'')
             @ '' --classifier "custom"''
             @ '' "'' @ get_asset_identifier rw (group_id rm) (asset_id rm) (asset_version rm)
             @ ''"''
        \<and> execute_anypoint_cli rw (rh @ [look]) upload_cmd = Inr ocli
        \<and> modify_exchange_asset rw (rh @ [look, AnypointCli upload_cmd]) initial_context
             = Inr omod \<longrightarrow>
        run_module rm rw rh =
          (Inr \<lparr>changed = True, msg = ''Asset uploaded''\<rparr>,
           [look, AnypointCli upload_cmd,
            ModifyExchangeAsset (group_id rm) (asset_id rm) (asset_version rm)]))\<close>
proof -
  have first: "snd (upload_exchange_asset m w ctx cb ident h)
        = created @ [ModifyExchangeAsset (group_id m) (asset_id m) (asset_version m)]"
    if "upload_by_type m w cb ident h = (Inr u, created)"
    using that by (simp add: upload_cases)
  have second: "r = ''Asset uploaded'' \<and> cs \<noteq> []
        \<and> last cs = ModifyExchangeAsset (group_id m) (asset_id m) (asset_version m)"
    if "upload_exchange_asset m w ctx cb ident h = (Inr r, cs)"
    using upload_success [OF that] by auto
  have third: \<open>run_module rm rw rh =
          (Inr \<lparr>changed = True, msg = ''Asset uploaded''\<rparr>,
           [look, AnypointCli upload_cmd,
            ModifyExchangeAsset (group_id rm) (asset_id rm) (asset_version rm)])\<close>
    if st: "state rm = Present" and ty: "atype rm = Custom"
      and fp: "empty_to_none (file_path rm) = None"
      and cm: "\<not> check_mode rm"
      and bins: "ap_get_anypointcli_path rw = Inr (Some cli)" "get_bin_path rw ''mvn'' = Some mvn"
      and nf: "fst (look_asset_on_exchange rm rw rh) = Inr None"
      and lk: "look = LookGraphql (group_id rm) (asset_id rm) (asset_version rm)"
      and uc: \<open>upload_cmd = cmd_base_of rm cli @ '' upload'' @ '' --name "'' @ name rm @ ''"''
             @ (case empty_to_none (main_file rm) of None \<Rightarrow> []
                | Some f \<Rightarrow> '' --mainFile "'' @ f @ ''"'')
             @ '' --classifier "custom"''
             @ '' "'' @ get_asset_identifier rw (group_id rm) (asset_id rm) (asset_version rm)
             @ ''"''\<close>
      and cli_ok: "execute_anypoint_cli rw (rh @ [look]) upload_cmd = Inr ocli"
      and mod_ok: "modify_exchange_asset rw (rh @ [look, AnypointCli upload_cmd]) initial_context
             = Inr omod"
  proof -
    let ?m = "normalize_params rm"
    let ?ident = "get_asset_identifier rw (group_id rm) (asset_id rm) (asset_version rm)"
    have ctx: "get_context rm rw [] rh = (Inr initial_context, [look])"
      using get_context_not_found [OF nf, of "[]"] st lk by simp
    have cmd: "cli_upload_cmd ?m (cmd_base_of rm cli) ?ident = upload_cmd"
      by (simp add: cli_upload_cmd_def normalize_params_simps uc fp ty)
    have up: "upload_exchange_asset ?m rw initial_context (cmd_base_of rm cli) ?ident (rh @ [look])
        = (Inr ''Asset uploaded'',
           [AnypointCli upload_cmd,
            ModifyExchangeAsset (group_id rm) (asset_id rm) (asset_version rm)])"
      using cli_ok mod_ok
      by (simp add: upload_cases upload_by_type_cli normalize_params_simps ty cmd)
    have act: "run_actions ?m rw initial_context (cmd_base_of rm cli) (rh @ [look])
        = (Inr \<lparr>changed = True, msg = ''Asset uploaded''\<rparr>,
           [AnypointCli upload_cmd,
            ModifyExchangeAsset (group_id rm) (asset_id rm) (asset_version rm)])"
      by (simp add: run_actions_present_absent normalize_params_simps st initial_context_def
          up [unfolded initial_context_def] remove_newlines_uploaded)
    have nd: "\<not> do_nothing initial_context" by (simp add: initial_context_def)
    show ?thesis
      using st ty cm
      by (simp add: run_module_cases bins requires_project_dir_def requires_file_path_def
          ctx nd act)
  qed
  from first second third show ?thesis by blast
qed


theorem upload_ends_with_metadata_update_witness:
  \<open>state demo_params = Present \<and> atype demo_params = Custom \<and> file_path demo_params = None
   \<and> fst (look_asset_on_exchange demo_params demo_world []) = Inr None
   \<and> run_module demo_params demo_world [] =
       (Inr \<lparr>changed = True, msg = ''Asset uploaded''\<rparr>,
        [LookGraphql ''g'' ''a'' ''1.0.0'',
         AnypointCli (''/bin/anypoint-cli --bearer="t" --host="h" --organization="o" exchange asset''
           @ '' upload --name "My Asset" --classifier "custom" "g/a/1.0.0"''),
         ModifyExchangeAsset ''g'' ''a'' ''1.0.0''])\<close>
proof -
  have nf: "fst (look_asset_on_exchange demo_params demo_world []) = Inr None"
    by (simp add: look_cases demo_world_simps not_found_output_def)
  have cmd: \<open>cmd_base_of demo_params ''/bin/anypoint-cli''
      = ''/bin/anypoint-cli --bearer="t" --host="h" --organization="o" exchange asset''\<close>
    by (simp add: cmd_base_of_def demo_params_simps)
  from upload_ends_with_metadata_update
    [where rm = demo_params and rw = demo_world and rh = "[]" and cli = "''/bin/anypoint-cli''"
       and mvn = "''/bin/mvn''" and ocli = "''done''" and omod = "''Asset modified''"
       and look = "LookGraphql ''g'' ''a'' ''1.0.0''"
       and upload_cmd = \<open>''/bin/anypoint-cli --bearer="t" --host="h" --organization="o" exchange asset''
           @ '' upload --name "My Asset" --classifier "custom" "g/a/1.0.0"''\<close>]
  show ?thesis
    by (simp add: nf cmd demo_params_simps demo_world_simps empty_to_none_def)
qed

section \<open>Examples and templates\<close>

lemma execute_maven_cases:
  assumes "get_bin_path w ''mvn'' = Some mvn"
  shows "execute_maven w cmd h =
     (if fst (run_command w h (mvn @ '' '' @ cmd)) \<noteq> 0
      then Inl (FailJson (''[execute_maven] '' @ snd (run_command w h (mvn @ '' '' @ cmd))))
      else Inr (snd (run_command w h (mvn @ '' '' @ cmd))),
      [Maven (mvn @ '' '' @ cmd)])"
  using assms
  by (simp add: execute_maven_def get_maven_path_def module_get_bin_path_def andthen_ok Let_def
      andthen_perform ok_def fail_json_def)

lemma deploy_file_accepted:
  assumes "file_path m = Some fp" and "select_classifier (atype m) (splitext_ext fp) = Inr cl"
    and "get_bin_path w ''mvn'' = Some mvn" and "upstream_succeeds w"
  shows \<open>deploy_file m w h =
     (Inr (),
      [WriteSettingsXml (get_settings_xml_path m),
       Maven (mvn @ '' '' @ ''deploy:deploy-file''
              @ '' -s "'' @ get_settings_xml_path m @ ''"''
              @ '' -Dfile="'' @ fp @ ''"''
              @ '' -DrepositoryId=Repository''
              @ '' -DartifactId='' @ asset_id m
              @ '' -DgroupId='' @ group_id m
              @ '' -Dversion='' @ asset_version m
              @ cl @ '' -Durl='' @ get_distribution_repository_url m),
       SetAssetName (group_id m) (asset_id m) (asset_version m) (name m)])\<close>
  using assms
  by (simp add: deploy_file_def andthen_def create_settings_xml_cases execute_maven_cases
      upstream_succeeds_def perform_def Let_def)

lemma build_from_sources_ok:
  assumes "get_bin_path w ''mvn'' = Some mvn" and "upstream_succeeds w"
  shows "\<exists>opts out. build_from_sources m w mv src h =
     (Inr out,
      [WriteSettingsXml (get_settings_xml_path m),
       ModifyPomFile (case pom mv of None \<Rightarrow> src @ ''/pom.xml''
                      | Some p \<Rightarrow> if p \<noteq> [] then p else src @ ''/pom.xml''),
       Maven (mvn @ '' '' @ ''-U -B clean deploy -DskipTests -DattachMuleSources=true'' @ opts)])"
  using assms
  by (simp add: build_from_sources_def andthen_def create_settings_xml_cases execute_maven_cases
      upstream_succeeds_def perform_def Let_def)


lemma upload_by_type_example:
  assumes "atype m = Example \<or> atype m = Template"
  shows "upload_by_type m w cb ai =
     (if file_path m = None then
        (case maven m of
           None \<Rightarrow> raise ''TypeError''
         | Some mv \<Rightarrow>
             (case sources mv of
                Some src \<Rightarrow> andthen (build_from_sources m w mv src) (\<lambda>out. ok ())
              | None \<Rightarrow>
                  fail_json
                    (''[upload_exchange_asset] asset type \"template\" or \"example\" requires either a project directory''
                     @ ''to build it or a file to just upload it'')))
      else deploy_file m w)"
  using assms unfolding upload_by_type_def by auto

lemma run_module_creates:
  assumes "state m = Present" and "\<not> check_mode m"
    and "\<not> requires_project_dir m" and "\<not> requires_file_path m"
    and "ap_get_anypointcli_path w = Inr (Some cli)" and "get_bin_path w ''mvn'' = Some mvn"
    and "fst (look_asset_on_exchange m w h) = Inr None"
    and "look = LookGraphql (group_id m) (asset_id m) (asset_version m)"
  shows "run_module m w h =
     (case upload_by_type (normalize_params m) w (cmd_base_of m cli)
             (get_asset_identifier w (group_id m) (asset_id m) (asset_version m)) (h @ [look]) of
        (Inl e, cs) \<Rightarrow> (Inl e, look # cs)
      | (Inr u, cs) \<Rightarrow>
          (case modify_exchange_asset w (h @ look # cs) initial_context of
             Inl e \<Rightarrow> Inl e
           | Inr out \<Rightarrow> Inr \<lparr>changed = True, msg = ''Asset uploaded''\<rparr>,
           look # cs @ [ModifyExchangeAsset (group_id m) (asset_id m) (asset_version m)]))"
proof -
  have ctx: "get_context m w [] h = (Inr initial_context, [look])"
    using get_context_not_found [OF assms(7), of "[]"] assms(1,8) by simp
  have nd: "\<not> do_nothing initial_context" "\<not> exists_on_exchange initial_context"
    by (simp_all add: initial_context_def)
  show ?thesis
    using assms(1-6)
    by (simp add: run_module_cases ctx nd run_actions_present_absent normalize_params_simps
        upload_cases remove_newlines_uploaded split: prod.splits sum.splits)
qed

text \<open>
  C4, as amended. Take target \<open>present\<close>, type \<open>example\<close> or \<open>template\<close>, the \<open>maven\<close>
  option supplied, an asset that is not on the exchange, and upstream calls that succeed.
  A file path with the extension \<open>.jar\<close> is uploaded by the \<open>deploy:deploy-file\<close> goal and the
  run reports a change. The run fails with a \<open>fail_json\<close> of the module in two cases only: the
  file path has another extension, or neither a file path nor a source directory was supplied.
  With a source directory and no file path the asset is built by \<open>clean deploy\<close>.
\<close>

theorem example_template_upload:
  assumes "state m = Present" and "atype m = Example \<or> atype m = Template"
    and "maven m = Some mv" and "\<not> check_mode m"
    and "ap_get_anypointcli_path w = Inr (Some cli)" and "get_bin_path w ''mvn'' = Some mvn"
    and "fst (look_asset_on_exchange m w h) = Inr None"
    and "upstream_succeeds w"
    and "look = LookGraphql (group_id m) (asset_id m) (asset_version m)"
    and "update = ModifyExchangeAsset (group_id m) (asset_id m) (asset_version m)"
    and "write = WriteSettingsXml (get_settings_xml_path m)"
  shows \<open>(\<forall>fp. empty_to_none (file_path m) = Some fp \<and> splitext_ext fp = ''.jar'' \<longrightarrow>
            run_module m w h =
              (Inr \<lparr>changed = True, msg = ''Asset uploaded''\<rparr>,
               [look, write,
                Maven (mvn @ '' '' @ ''deploy:deploy-file''
                       @ '' -s "'' @ get_settings_xml_path m @ ''"''
                       @ '' -Dfile="'' @ fp @ ''"''
                       @ '' -DrepositoryId=Repository''
                       @ '' -DartifactId='' @ asset_id m
                       @ '' -DgroupId='' @ group_id m
                       @ '' -Dversion='' @ asset_version m
                       @ '' -Dclassifier=mule-application-'' @ type_name (atype m)
                       @ '' -Durl='' @ get_distribution_repository_url m),
                SetAssetName (group_id m) (asset_id m) (asset_version m) (name m),
                update]))
       \<and> (\<forall>fp. empty_to_none (file_path m) = Some fp \<and> splitext_ext fp \<noteq> ''.jar'' \<longrightarrow>
            run_module m w h =
              (Inl (FailJson
                 (''[upload_exchange_asset] invalid file extension for '' @ type_name (atype m)
                  @ '' asset type '' @ ''(only supported .zip for mule 3 and .jar for mule 4)'')),
               [look, write]))
       \<and> (empty_to_none (file_path m) = None \<and> empty_to_none (sources mv) = None \<longrightarrow>
            run_module m w h =
              (Inl (FailJson
                 (''[upload_exchange_asset] asset type "template" or "example" requires either a project directory''
                  @ ''to build it or a file to just upload it'')),
               [look]))
       \<and> (\<forall>src. empty_to_none (file_path m) = None \<and> empty_to_none (sources mv) = Some src \<longrightarrow>
            fst (run_module m w h) = Inr \<lparr>changed = True, msg = ''Asset uploaded''\<rparr>
            \<and> (\<exists>opts. snd (run_module m w h) =
                  [look, write,
                   ModifyPomFile (case pom mv of None \<Rightarrow> src @ ''/pom.xml''
                                  | Some p \<Rightarrow> if p \<noteq> [] then p else src @ ''/pom.xml''),
                   Maven (mvn @ '' '' @ ''-U -B clean deploy -DskipTests -DattachMuleSources=true''
                          @ opts),
                   update]))\<close>
proof -
  let ?n = "normalize_params m"
  let ?cb = "cmd_base_of m cli"
  let ?id = "get_asset_identifier w (group_id m) (asset_id m) (asset_version m)"
  have v: "\<not> requires_project_dir m" "\<not> requires_file_path m"
    using assms(2,3) by (auto simp: requires_project_dir_def requires_file_path_def)
  note run = run_module_creates [OF assms(1,4) v assms(5,6,7,9)]
  have ty: "atype ?n = Example \<or> atype ?n = Template"
    using assms(2) by (simp add: normalize_params_simps)
  note by_type = upload_by_type_example [OF ty]
  obtain out where modify: "\<And>h c. \<exists>out. modify_exchange_asset w h c = Inr out"
    using assms(8) by (auto simp: upstream_succeeds_def)
  have mod: "(case modify_exchange_asset w h' c of Inl e \<Rightarrow> Inl e
               | Inr out \<Rightarrow> Inr \<lparr>changed = True, msg = ''Asset uploaded''\<rparr>)
             = Inr \<lparr>changed = True, msg = ''Asset uploaded''\<rparr>" for h' c
    using modify [of h' c] by auto
  have settings: "get_settings_xml_path ?n = get_settings_xml_path m"
    and url: "get_distribution_repository_url ?n = get_distribution_repository_url m"
    by (simp_all add: get_settings_xml_path_def get_distribution_repository_url_def
        normalize_params_simps)
  have jar: \<open>run_module m w h =
              (Inr \<lparr>changed = True, msg = ''Asset uploaded''\<rparr>,
               [look, write,
                Maven (mvn @ '' '' @ ''deploy:deploy-file''
                       @ '' -s "'' @ get_settings_xml_path m @ ''"''
                       @ '' -Dfile="'' @ fp @ ''"''
                       @ '' -DrepositoryId=Repository''
                       @ '' -DartifactId='' @ asset_id m
                       @ '' -DgroupId='' @ group_id m
                       @ '' -Dversion='' @ asset_version m
                       @ '' -Dclassifier=mule-application-'' @ type_name (atype m)
                       @ '' -Durl='' @ get_distribution_repository_url m),
                SetAssetName (group_id m) (asset_id m) (asset_version m) (name m),
                update])\<close>
    if fp: "empty_to_none (file_path m) = Some fp" and ext: "splitext_ext fp = ''.jar''" for fp
  proof -
    have fpn: "file_path ?n = Some fp" using fp by (simp add: normalize_params_simps)
    have cl: "select_classifier (atype ?n) (splitext_ext fp)
        = Inr ('' -Dclassifier=mule-application-'' @ type_name (atype m))"
      using assms(2) ext by (auto simp: select_classifier_def normalize_params_simps)
    have "upload_by_type ?n w ?cb ?id = deploy_file ?n w"
      using fpn by (simp add: by_type)
    then show ?thesis
      by (simp add: run deploy_file_accepted [OF fpn cl assms(6,8)] mod settings url
          normalize_params_simps assms(10,11))
  qed
  have other: "run_module m w h =
              (Inl (FailJson
                 (''[upload_exchange_asset] invalid file extension for '' @ type_name (atype m)
                  @ '' asset type '' @ ''(only supported .zip for mule 3 and .jar for mule 4)'')),
               [look, write])"
    if fp: "empty_to_none (file_path m) = Some fp" and ext: "splitext_ext fp \<noteq> ''.jar''" for fp
  proof -
    have fpn: "file_path ?n = Some fp" using fp by (simp add: normalize_params_simps)
    have out: "(atype ?n, splitext_ext fp) \<notin> {(Connector, ''.zip''), (Extension, ''.jar''),
        (Policy, ''.jar''), (Example, ''.jar''), (Template, ''.jar'')}"
      using assms(2) ext by (auto simp: normalize_params_simps)
    have wr: "write_settings_xml w h' p = None" for h' p
      using assms(8) by (simp add: upstream_succeeds_def)
    have "upload_by_type ?n w ?cb ?id = deploy_file ?n w"
      using fpn by (simp add: by_type)
    then show ?thesis
      by (simp add: run deploy_file_rejected [OF fpn select_classifier_outside_table [OF out]]
          wr settings normalize_params_simps assms(11))
  qed
  have none: \<open>run_module m w h =
              (Inl (FailJson
                 (''[upload_exchange_asset] asset type "template" or "example" requires either a project directory''
                  @ ''to build it or a file to just upload it'')),
               [look])\<close>
    if "empty_to_none (file_path m) = None" and "empty_to_none (sources mv) = None"
    using that assms(3)
    by (simp add: run by_type normalize_params_simps fail_json_def)
  have build: "fst (run_module m w h) = Inr \<lparr>changed = True, msg = ''Asset uploaded''\<rparr>
            \<and> (\<exists>opts. snd (run_module m w h) =
                  [look, write,
                   ModifyPomFile (case pom mv of None \<Rightarrow> src @ ''/pom.xml''
                                  | Some p \<Rightarrow> if p \<noteq> [] then p else src @ ''/pom.xml''),
                   Maven (mvn @ '' '' @ ''-U -B clean deploy -DskipTests -DattachMuleSources=true''
                          @ opts),
                   update])"
    if fp: "empty_to_none (file_path m) = None" and src: "empty_to_none (sources mv) = Some src"
    for src
  proof -
    let ?mv = "mv\<lparr>sources := empty_to_none (sources mv)\<rparr>"
    obtain opts out where b: "build_from_sources ?n w ?mv src (h @ [look]) =
       (Inr out,
        [WriteSettingsXml (get_settings_xml_path ?n),
         ModifyPomFile (case pom ?mv of None \<Rightarrow> src @ ''/pom.xml''
                        | Some p \<Rightarrow> if p \<noteq> [] then p else src @ ''/pom.xml''),
         Maven (mvn @ '' '' @ ''-U -B clean deploy -DskipTests -DattachMuleSources=true'' @ opts)])"
      using build_from_sources_ok [OF assms(6,8), of ?n ?mv src "h @ [look]"] by blast
    have "upload_by_type ?n w ?cb ?id (h @ [look]) =
        (Inr (),
         [write,
          ModifyPomFile (case pom mv of None \<Rightarrow> src @ ''/pom.xml''
                         | Some p \<Rightarrow> if p \<noteq> [] then p else src @ ''/pom.xml''),
          Maven (mvn @ '' '' @ ''-U -B clean deploy -DskipTests -DattachMuleSources=true'' @ opts)])"
      using fp src assms(3) b
      by (simp add: by_type normalize_params_simps andthen_def ok_def settings assms(11))
    then show ?thesis
      by (simp add: run mod assms(10))
  qed
  from jar other none build show ?thesis
    by blast
qed


lemma demo_example_simps:
  "state demo_example_zip = Present" "atype demo_example_zip = Example"
  "file_path demo_example_zip = Some ''/tmp/app.zip''" "maven demo_example_zip = Some demo_maven"
  "check_mode demo_example_zip = False" "group_id demo_example_zip = ''g''"
  "asset_id demo_example_zip = ''a''" "asset_version demo_example_zip = ''1.0.0''"
  "state demo_example_jar = Present" "atype demo_example_jar = Example"
  "file_path demo_example_jar = Some ''/tmp/app.jar''" "maven demo_example_jar = Some demo_maven"
  "check_mode demo_example_jar = False" "group_id demo_example_jar = ''g''"
  "asset_id demo_example_jar = ''a''" "asset_version demo_example_jar = ''1.0.0''"
  "name demo_example_jar = ''My Asset''" "host demo_example_jar = ''h''"
  "state demo_example_no_maven = Present" "atype demo_example_no_maven = Example"
  "file_path demo_example_no_maven = Some ''/tmp/app.jar''" "maven demo_example_no_maven = None"
  "check_mode demo_example_no_maven = False"
  by (simp_all add: demo_example_zip_def demo_example_jar_def demo_example_no_maven_def
      demo_params_def)

lemma demo_world_upstream: "upstream_succeeds demo_world"
  by (simp add: upstream_succeeds_def demo_world_simps)

lemma demo_not_found:
  "group_id m = ''g'' \<Longrightarrow> asset_id m = ''a'' \<Longrightarrow> asset_version m = ''1.0.0'' \<Longrightarrow>
   fst (look_asset_on_exchange m demo_world []) = Inr None"
  by (simp add: look_cases demo_world_simps not_found_output_def)

text \<open>
  The claim C4 as stated fails: with target \<open>present\<close>, type \<open>example\<close>, the \<open>maven\<close> option
  supplied and the explicit file path \<open>/tmp/app.zip\<close>, the run ends in the module's
  \<open>fail_json\<close> for the file extension, and no build tool call is issued.
\<close>

theorem explicit_file_refused_counterexample:
  \<open>state demo_example_zip = Present \<and> atype demo_example_zip = Example
   \<and> file_path demo_example_zip = Some ''/tmp/app.zip''
   \<and> maven demo_example_zip = Some demo_maven
   \<and> run_module demo_example_zip demo_world [] =
       (Inl (FailJson
          (''[upload_exchange_asset] invalid file extension for example asset type ''
           @ ''(only supported .zip for mule 3 and .jar for mule 4)'')),
        [LookGraphql ''g'' ''a'' ''1.0.0'', WriteSettingsXml ''/tmp/g_a_settings.xml''])\<close>
proof -
  let ?m = demo_example_zip
  have v: "\<not> requires_project_dir ?m" "\<not> requires_file_path ?m"
    by (simp_all add: requires_project_dir_def requires_file_path_def demo_example_simps)
  have nf: "fst (look_asset_on_exchange ?m demo_world []) = Inr None"
    by (simp add: demo_not_found demo_example_simps)
  have fp: "file_path (normalize_params ?m) = Some ''/tmp/app.zip''"
    by (simp add: normalize_params_simps demo_example_simps empty_to_none_def)
  have cl: "select_classifier (atype (normalize_params ?m)) (splitext_ext ''/tmp/app.zip'')
      = Inl (FailJson
          (''[upload_exchange_asset] invalid file extension for example asset type ''
           @ ''(only supported .zip for mule 3 and .jar for mule 4)''))"
    by (simp add: select_classifier_def normalize_params_simps demo_example_simps
        splitext_ext_examples)
  have ty: "atype (normalize_params ?m) \<in> {Example, Template, Connector, Extension, Policy}"
    by (simp add: normalize_params_simps demo_example_simps)
  have "run_module ?m demo_world [] =
       (Inl (FailJson
          (''[upload_exchange_asset] invalid file extension for example asset type ''
           @ ''(only supported .zip for mule 3 and .jar for mule 4)'')),
        [LookGraphql ''g'' ''a'' ''1.0.0'', WriteSettingsXml ''/tmp/g_a_settings.xml''])"
    using run_module_creates [OF _ _ v _ _ nf refl, of "''/bin/anypoint-cli''" "''/bin/mvn''"]
    by (simp add: demo_example_simps demo_world_simps upload_takes_deploy_file [OF fp ty]
        deploy_file_rejected [OF fp cl] get_settings_xml_path_def get_tmp_dir_def
        normalize_params_simps)
  then show ?thesis by (simp add: demo_example_simps)
qed

theorem example_template_upload_witness:
  \<open>state demo_example_jar = Present \<and> atype demo_example_jar = Example
   \<and> maven demo_example_jar = Some demo_maven
   \<and> file_path demo_example_jar = Some ''/tmp/app.jar''
   \<and> splitext_ext ''/tmp/app.jar'' = ''.jar''
   \<and> upstream_succeeds demo_world
   \<and> fst (look_asset_on_exchange demo_example_jar demo_world []) = Inr None
   \<and> run_module demo_example_jar demo_world [] =
       (Inr \<lparr>changed = True, msg = ''Asset uploaded''\<rparr>,
        [LookGraphql ''g'' ''a'' ''1.0.0'', WriteSettingsXml ''/tmp/g_a_settings.xml'',
         Maven (''/bin/mvn deploy:deploy-file -s "/tmp/g_a_settings.xml" -Dfile="/tmp/app.jar"''
                @ '' -DrepositoryId=Repository -DartifactId=a -DgroupId=g -Dversion=1.0.0''
                @ '' -Dclassifier=mule-application-example''
                @ '' -Durl=https://maven.h/api/v1/organizations/g/maven''),
         SetAssetName ''g'' ''a'' ''1.0.0'' ''My Asset'',
         ModifyExchangeAsset ''g'' ''a'' ''1.0.0''])\<close>
proof -
  let ?m = demo_example_jar
  have a1: "state ?m = Present" and a2: "atype ?m = Example \<or> atype ?m = Template"
    and a3: "maven ?m = Some demo_maven" and a4: "\<not> check_mode ?m"
    by (simp_all add: demo_example_simps)
  have a5: "ap_get_anypointcli_path demo_world = Inr (Some ''/bin/anypoint-cli'')"
    and a6: "get_bin_path demo_world ''mvn'' = Some ''/bin/mvn''"
    by (simp_all add: demo_world_simps)
  have a7: "fst (look_asset_on_exchange ?m demo_world []) = Inr None"
    by (simp add: demo_not_found demo_example_simps)
  have fp: "empty_to_none (file_path ?m) = Some ''/tmp/app.jar''"
    by (simp add: demo_example_simps empty_to_none_def)
  from example_template_upload [OF a1 a2 a3 a4 a5 a6 a7 demo_world_upstream refl refl refl] fp
  have "run_module ?m demo_world [] =
       (Inr \<lparr>changed = True, msg = ''Asset uploaded''\<rparr>,
        [LookGraphql (group_id ?m) (asset_id ?m) (asset_version ?m),
         WriteSettingsXml (get_settings_xml_path ?m),
         Maven (''/bin/mvn'' @ '' '' @ ''deploy:deploy-file''
                @ '' -s '' @ [CHR 0x22] @ get_settings_xml_path ?m @ [CHR 0x22]
                @ '' -Dfile='' @ [CHR 0x22] @ ''/tmp/app.jar'' @ [CHR 0x22]
                @ '' -DrepositoryId=Repository''
                @ '' -DartifactId='' @ asset_id ?m
                @ '' -DgroupId='' @ group_id ?m
                @ '' -Dversion='' @ asset_version ?m
                @ '' -Dclassifier=mule-application-'' @ type_name (atype ?m)
                @ '' -Durl='' @ get_distribution_repository_url ?m),
         SetAssetName (group_id ?m) (asset_id ?m) (asset_version ?m) (name ?m),
         ModifyExchangeAsset (group_id ?m) (asset_id ?m) (asset_version ?m)])"
    by (simp add: splitext_ext_examples)
  then show ?thesis
    using a7 demo_world_upstream
    by (simp add: demo_example_simps splitext_ext_examples get_settings_xml_path_def
        get_tmp_dir_def get_distribution_repository_url_def)
qed

text \<open>
  Without the \<open>maven\<close> option the first parameter check of \<open>run_module\<close> ends the run for the types
  \<open>example\<close> and \<open>template\<close>, also when a file path is given, although the module's
  documentation says of \<open>maven\<close>: not required if you already specified \<open>file_path\<close>.
\<close>

lemma example_without_maven_refused:
  assumes "state m = Present" and "atype m = Example \<or> atype m = Template"
    and "maven m = None" and "\<not> check_mode m"
    and "ap_get_anypointcli_path w = Inr (Some cli)" and "get_bin_path w ''mvn'' = Some mvn"
  shows "run_module m w h =
     (Inl (FailJson ''asset type template or example requires a project directory to build it''),
      [])"
  using assms by (simp add: run_module_cases requires_project_dir_def)

lemma example_jar_without_maven_refused:
  "file_path demo_example_no_maven = Some ''/tmp/app.jar''
   \<and> run_module demo_example_no_maven demo_world [] =
     (Inl (FailJson ''asset type template or example requires a project directory to build it''),
      [])"
  using example_without_maven_refused [of demo_example_no_maven demo_world
      "''/bin/anypoint-cli''" "''/bin/mvn''" "[]"]
  by (simp add: demo_example_simps demo_world_simps)

section \<open>The environment inspector\<close>

lemma get_environment_cases:
  "get_environment m w cb h =
     (if fst (env_run_command w h (describe_cmd m cb)) = 0 then
        (case json_loads w (snd (env_run_command w h (describe_cmd m cb))) of
           None \<Rightarrow> Inl (Raised ''ValueError'') | Some j \<Rightarrow> Inr j)
      else if fst (env_run_command w h (describe_cmd m cb)) = 255
              \<and> remove_newlines (snd (env_run_command w h (describe_cmd m cb)))
                  = ''Error: Environment not found''
        then Inr (JObj [])
      else Inl (FailJson (snd (env_run_command w h (describe_cmd m cb)))),
      [Describe (describe_cmd m cb)])"
  by (simp add: get_environment_def andthen_perform json_load_def ok_def raise_def fail_json_def
      split: option.splits)

text \<open>
  C9, as amended. \<open>get_environment\<close> issues the \<open>describe\<close> command once. With exit code 0 it
  returns what \<open>json.loads\<close> makes of the output, and raises if the output does not parse. With
  exit code 255 and an output that, newlines removed, is \<open>Error: Environment not found\<close> it
  returns the empty record. In every other case it fails with the output as message.
\<close>

theorem get_environment_outcomes:
  assumes "env_run_command w h (describe_cmd m cb) = (rc, out)"
  shows "(rc = 0 \<longrightarrow>
            fst (get_environment m w cb h) =
              (case json_loads w out of None \<Rightarrow> Inl (Raised ''ValueError'') | Some j \<Rightarrow> Inr j))
       \<and> (rc = 255 \<and> remove_newlines out = ''Error: Environment not found'' \<longrightarrow>
            fst (get_environment m w cb h) = Inr (JObj []))
       \<and> (rc \<noteq> 0 \<and> \<not> (rc = 255 \<and> remove_newlines out = ''Error: Environment not found'') \<longrightarrow>
            fst (get_environment m w cb h) = Inl (FailJson out))
       \<and> snd (get_environment m w cb h) = [Describe (describe_cmd m cb)]"
  using assms by (simp add: get_environment_cases)

lemma demo_env_simps:
  "env_name demo_env = ''Dev''" "env_state demo_env = EnvPresent" "env_host demo_env = ''h''"
  "env_organization demo_env = ''o''" "env_type demo_env = Sandbox"
  "env_check_mode demo_env = False" "env_bearer demo_env = ''t''"
  "env_name demo_env_absent = ''Dev''" "env_state demo_env_absent = EnvAbsent"
  "env_host demo_env_absent = ''h''" "env_organization demo_env_absent = ''o''"
  "env_check_mode demo_env_absent = False" "env_bearer demo_env_absent = ''t''"
  by (simp_all add: demo_env_def demo_env_absent_def)

lemma demo_describe_cmd:
  "describe_cmd demo_env_absent cb = describe_cmd demo_env cb"
  by (simp add: describe_cmd_def demo_env_simps)

lemma demo_env_world_simps:
  "env_get_bin_path demo_env_world nm = Some (''/bin/'' @ nm)"
  "env_run_command demo_env_world h cmd =
     (if cmd = describe_cmd demo_env demo_env_cmd_base then
        (if filter mutating h = [] then (255, ''Error: Environment not found'' @ [CHR 0x0A])
         else (0, ''env''))
      else (0, ''done''))"
  "open_url demo_env_world = demo_open_url" "json_loads demo_env_world = demo_json_loads"
  "env_get_bin_path demo_env_world_existing nm = Some (''/bin/'' @ nm)"
  "env_run_command demo_env_world_existing h cmd =
     (if cmd = describe_cmd demo_env demo_env_cmd_base then
        (if filter mutating h = [] then (0, ''env'')
         else (255, ''Error: Environment not found'' @ [CHR 0x0A]))
      else (0, ''done''))"
  "open_url demo_env_world_existing = demo_open_url"
  "json_loads demo_env_world_existing = demo_json_loads"
  "env_run_command demo_env_world_exit1 h cmd = (1, ''Error: Environment not found'')"
  by (simp_all add: demo_env_world_def demo_env_world_existing_def demo_env_world_exit1_def)

theorem get_environment_outcomes_witness:
  "env_run_command demo_env_world [] (describe_cmd demo_env demo_env_cmd_base)
     = (255, ''Error: Environment not found'' @ [CHR 0x0A])
   \<and> remove_newlines (''Error: Environment not found'' @ [CHR 0x0A])
       = ''Error: Environment not found''
   \<and> fst (get_environment demo_env demo_env_world demo_env_cmd_base []) = Inr (JObj [])
   \<and> snd (get_environment demo_env demo_env_world demo_env_cmd_base [])
       = [Describe (describe_cmd demo_env demo_env_cmd_base)]"
proof -
  have rc: "env_run_command demo_env_world [] (describe_cmd demo_env demo_env_cmd_base)
     = (255, ''Error: Environment not found'' @ [CHR 0x0A])"
    by (simp add: demo_env_world_simps)
  have nl: "remove_newlines (''Error: Environment not found'' @ [CHR 0x0A])
       = ''Error: Environment not found''"
    by (simp add: remove_newlines_def)
  from get_environment_outcomes [OF rc] nl rc show ?thesis by simp
qed

text \<open>
  The claim C9 as stated fails: a \<open>describe\<close> call that fails with exit code 1 and the message
  \<open>Error: Environment not found\<close> is not taken as not found; \<open>get_environment\<close> fails.
\<close>

theorem sentinel_with_other_exit_code_counterexample:
  "env_run_command demo_env_world_exit1 [] (describe_cmd demo_env demo_env_cmd_base)
     = (1, ''Error: Environment not found'')
   \<and> get_environment demo_env demo_env_world_exit1 demo_env_cmd_base [] =
       (Inl (FailJson ''Error: Environment not found''),
        [Describe (describe_cmd demo_env demo_env_cmd_base)])"
  by (simp add: get_environment_cases demo_env_world_simps)

section \<open>The decisions of the environment module\<close>

lemma env_get_context_Inr:
  assumes "env_get_context m w cb h = (Inr ctx, cs)"
  shows "\<exists>resp. get_environment m w cb h = (Inr resp, [Describe (describe_cmd m cb)])
           \<and> (resp = JObj [] \<longrightarrow> ctx_id ctx = JNull \<and> ctx_client_id ctx = JNull)
           \<and> (resp \<noteq> JObj [] \<longrightarrow>
                fst (subscript resp ''ID'' []) = Inr (ctx_id ctx)
                \<and> fst (subscript resp ''Client ID'' []) = Inr (ctx_client_id ctx))
           \<and> env_do_nothing ctx =
               (if env_state m = EnvAbsent then ctx_id ctx = JNull else ctx_id ctx \<noteq> JNull)
           \<and> (env_do_nothing ctx \<and> env_state m = EnvAbsent \<longrightarrow>
                cs = [Describe (describe_cmd m cb)])
           \<and> (\<not> env_do_nothing ctx \<longrightarrow> cs = [Describe (describe_cmd m cb)])"
proof -
  obtain r where ge: "get_environment m w cb h = (r, [Describe (describe_cmd m cb)])"
    by (simp add: get_environment_cases)
  from assms obtain resp where r: "r = Inr resp"
    by (cases r) (auto simp: env_get_context_def andthen_def ge)
  have sub: "snd (subscript d k h') = []" for d k h'
    by (simp add: subscript_def raise_def ok_def split: json.splits option.splits)
  have sub_h: "fst (subscript d k h') = fst (subscript d k [])" for d k h'
    by (simp add: subscript_def raise_def ok_def split: json.splits option.splits)
  show ?thesis
  proof (cases "resp = JObj []")
    case True
    with assms show ?thesis
      by (cases "env_state m")
         (auto simp: env_get_context_def andthen_def ge r ok_def env_initial_context_def)
  next
    case False
    obtain ri where i: "subscript resp ''ID'' (h @ [Describe (describe_cmd m cb)]) = (ri, [])"
      using sub [of resp "''ID''"] by (metis prod.collapse)
    obtain rc where c: "subscript resp ''Client ID'' (h @ [Describe (describe_cmd m cb)]) = (rc, [])"
      using sub [of resp "''Client ID''"] by (metis prod.collapse)
    from assms False obtain vi where ri: "ri = Inr vi"
      by (cases ri) (auto simp: env_get_context_def andthen_def ge r i)
    from assms False obtain vc where rc: "rc = Inr vc"
      by (cases rc) (auto simp: env_get_context_def andthen_def ge r i ri c)
    have i0: "fst (subscript resp ''ID'' []) = Inr vi"
      using i ri sub_h [of resp "''ID''" "h @ [Describe (describe_cmd m cb)]"] by simp
    have c0: "fst (subscript resp ''Client ID'' []) = Inr vc"
      using c rc sub_h [of resp "''Client ID''" "h @ [Describe (describe_cmd m cb)]"] by simp
    from assms False show ?thesis
      by (cases "env_state m")
         (auto simp: env_get_context_def andthen_def ge r i ri c rc i0 c0 ok_def
            env_initial_context_def split: if_splits prod.splits sum.splits)
  qed
qed


lemma env_get_context_ignores_type:
  "env_get_context (m\<lparr>env_type := t\<rparr>) w cb h = env_get_context m w cb h"
proof -
  have e: "get_environment (m\<lparr>env_type := t\<rparr>) w cb = get_environment m w cb"
    by (simp add: get_environment_def describe_cmd_def)
  have o: "get_org_id (m\<lparr>env_type := t\<rparr>) w = get_org_id m w"
    by (simp add: get_org_id_def cong: if_cong json.case_cong)
  have s: "get_env_client_secret (m\<lparr>env_type := t\<rparr>) w = get_env_client_secret m w"
    by (simp add: get_env_client_secret_def fun_eq_iff cong: json.case_cong)
  show ?thesis
    by (simp add: env_get_context_def e o s cong: if_cong)
qed

text \<open>
  C7. The environment module takes the environment as existing when the \<open>describe\<close> record gave
  an \<open>ID\<close> that is not \<open>None\<close>. Whenever \<open>get_context\<close> returns: for \<open>present\<close>,
  \<open>do_nothing\<close> holds exactly when the environment exists; for \<open>absent\<close>, exactly when it does
  not. An empty record gives no id, a non-empty one gives its \<open>ID\<close>. The declared type of the
  environment plays no part: the context is the same for every type.
\<close>

theorem env_get_context_decision:
  assumes "env_get_context m w cb h = (Inr ctx, cs)"
  shows "(env_state m = EnvPresent \<longrightarrow> env_do_nothing ctx = (ctx_id ctx \<noteq> JNull))
       \<and> (env_state m = EnvAbsent \<longrightarrow> env_do_nothing ctx = (ctx_id ctx = JNull))
       \<and> (\<exists>resp. fst (get_environment m w cb h) = Inr resp
             \<and> (resp = JObj [] \<longrightarrow> ctx_id ctx = JNull)
             \<and> (resp \<noteq> JObj [] \<longrightarrow> fst (subscript resp ''ID'' []) = Inr (ctx_id ctx)))
       \<and> env_get_context (m\<lparr>env_type := t\<rparr>) w cb h = env_get_context m w cb h"
proof -
  from env_get_context_Inr [OF assms] obtain resp where
    "get_environment m w cb h = (Inr resp, [Describe (describe_cmd m cb)])"
    "resp = JObj [] \<longrightarrow> ctx_id ctx = JNull"
    "resp \<noteq> JObj [] \<longrightarrow> fst (subscript resp ''ID'' []) = Inr (ctx_id ctx)"
    "env_do_nothing ctx =
       (if env_state m = EnvAbsent then ctx_id ctx = JNull else ctx_id ctx \<noteq> JNull)"
    by blast
  then show ?thesis
    by (cases "env_state m") (auto simp: env_get_context_ignores_type)
qed

lemma demo_profile_url: "''https://'' @ env_host demo_env @ ''/accounts/api/profile''
    = ''https://h/accounts/api/profile''"
  by (simp add: demo_env_simps)

lemma demo_get_org_id:
  "get_org_id demo_env demo_env_world h = (Inr (JStr ''oid''), [HttpGet ''https://h/accounts/api/profile''])"
  by (simp add: get_org_id_def demo_profile_url execute_http_call_def andthen_def perform_def
      demo_env_world_simps demo_open_url_def json_load_def demo_json_loads_def
      subscript_def demo_env_simps ok_def)

lemma demo_get_env_client_secret:
  "get_env_client_secret demo_env demo_env_world (JStr ''oid'') (JStr ''c1'') h =
     (Inr (JStr ''s3''), [HttpGet ''https://h/accounts/api/organizations/oid/clients/c1''])"
  by (simp add: get_env_client_secret_def execute_http_call_def andthen_def perform_def
      demo_env_world_simps demo_open_url_def json_load_def demo_json_loads_def
      demo_env_simps ok_def)

lemma demo_get_environment_found:
  "filter mutating h \<noteq> [] \<Longrightarrow>
   get_environment demo_env demo_env_world demo_env_cmd_base h =
     (Inr (JObj [(''ID'', JStr ''e1''), (''Client ID'', JStr ''c1'')]),
      [Describe (describe_cmd demo_env demo_env_cmd_base)])"
  by (simp add: get_environment_cases demo_env_world_simps demo_json_loads_def)

lemma demo_env_get_context:
  "env_get_context demo_env demo_env_world demo_env_cmd_base [AnypointCli ''x''] =
     (Inr \<lparr>env_do_nothing = True, ctx_id = JStr ''e1'', ctx_client_id = JStr ''c1'',
           ctx_client_secret = JStr ''s3''\<rparr>,
      [Describe (describe_cmd demo_env demo_env_cmd_base),
       HttpGet ''https://h/accounts/api/profile'',
       HttpGet ''https://h/accounts/api/organizations/oid/clients/c1''])"
  by (simp add: env_get_context_def andthen_def demo_get_environment_found subscript_def ok_def
      env_initial_context_def demo_env_simps demo_get_org_id demo_get_env_client_secret)

theorem env_get_context_decision_witness:
  "env_get_context demo_env demo_env_world demo_env_cmd_base [AnypointCli ''x''] =
     (Inr \<lparr>env_do_nothing = True, ctx_id = JStr ''e1'', ctx_client_id = JStr ''c1'',
           ctx_client_secret = JStr ''s3''\<rparr>,
      [Describe (describe_cmd demo_env demo_env_cmd_base),
       HttpGet ''https://h/accounts/api/profile'',
       HttpGet ''https://h/accounts/api/organizations/oid/clients/c1''])
   \<and> env_state demo_env = EnvPresent
   \<and> env_do_nothing \<lparr>env_do_nothing = True, ctx_id = JStr ''e1'', ctx_client_id = JStr ''c1'',
           ctx_client_secret = JStr ''s3''\<rparr>
   \<and> ctx_id \<lparr>env_do_nothing = True, ctx_id = JStr ''e1'', ctx_client_id = JStr ''c1'',
           ctx_client_secret = JStr ''s3''\<rparr> \<noteq> JNull"
  using env_get_context_decision [OF demo_env_get_context]
  by (simp add: demo_env_get_context demo_env_simps)

section \<open>Runs of the environment module\<close>

lemma env_execute_anypoint_cli_cases:
  "env_execute_anypoint_cli w cmd h =
     (if fst (env_run_command w h cmd) \<noteq> 0 then Inl (FailJson (snd (env_run_command w h cmd)))
      else Inr (snd (env_run_command w h cmd)),
      [AnypointCli cmd])"
  by (simp add: env_execute_anypoint_cli_def andthen_perform fail_json_def ok_def)

lemma delete_environment_cases:
  "delete_environment m w cb h =
     (if fst (env_run_command w h (delete_cmd m cb)) \<noteq> 0
      then Inl (FailJson (snd (env_run_command w h (delete_cmd m cb))))
      else Inr \<lparr>out_id = JNull, out_client_id = JNull, out_client_secret = JNull,
                out_msg = ''environment deleted''\<rparr>,
      [AnypointCli (delete_cmd m cb)])"
  by (simp add: delete_environment_def andthen_def env_execute_anypoint_cli_cases ok_def)

lemma env_run_module_cases:
  "env_run_module m w h =
     (case env_get_bin_path w ''anypoint-cli'' of
        None \<Rightarrow> (Inl (FailJson ''Failed to find required executable anypoint-cli''), [])
      | Some cli \<Rightarrow>
          if env_check_mode m then (Inr env_initial_result, [])
          else
            (case env_get_context m w (env_cmd_base_of m cli) h of
               (Inl e, cs) \<Rightarrow> (Inl e, cs)
             | (Inr context, cs) \<Rightarrow>
                 if env_do_nothing context then
                   (Inr \<lparr>changed = False, msg = ''No action taken'', res_id = ctx_id context,
                         res_client_id = ctx_client_id context,
                         res_client_secret = ctx_client_secret context\<rparr>, cs)
                 else
                   (case (if env_state m = EnvPresent
                          then create_environment m w (env_cmd_base_of m cli) (h @ cs)
                          else delete_environment m w (env_cmd_base_of m cli) (h @ cs)) of
                      (Inl e, cs') \<Rightarrow> (Inl e, cs @ cs')
                    | (Inr output, cs') \<Rightarrow>
                        (Inr \<lparr>changed = True, msg = out_msg output, res_id = out_id output,
                              res_client_id = out_client_id output,
                              res_client_secret = out_client_secret output\<rparr>, cs @ cs'))))"
proof (cases "env_get_bin_path w ''anypoint-cli''")
  case None
  then show ?thesis
    by (simp add: env_run_module_def env_get_anypointcli_path_def module_get_bin_path_def
        andthen_fail_json)
next
  case (Some cli)
  then show ?thesis
    unfolding env_run_module_def env_get_anypointcli_path_def module_get_bin_path_def Let_def
    by (cases "env_state m")
       (auto simp: andthen_ok andthen_def ok_def env_initial_result_def
          split: prod.splits sum.splits)
qed

text \<open>
  C10. With target \<open>absent\<close> on an environment that exists, the identifiers that the existence
  check found do not reach the outcome: a run that ends without failure reports a change and
  \<open>None\<close> for \<open>id\<close>, \<open>client_id\<close> and \<open>client_secret\<close>, which are the values of the record that
  \<open>delete_environment\<close> returns. The run ends so whenever the \<open>delete\<close> command exits with 0.
\<close>

theorem delete_outcome_drops_identifiers:
  assumes "env_state m = EnvAbsent" and "\<not> env_check_mode m"
    and "env_get_bin_path w ''anypoint-cli'' = Some cli"
    and "cb = env_cmd_base_of m cli"
    and "env_get_context m w cb h = (Inr ctx, cs)"
    and "ctx_id ctx \<noteq> JNull"
  shows "(fst (env_run_command w (h @ cs) (delete_cmd m cb)) = 0 \<longrightarrow>
            env_run_module m w h =
              (Inr \<lparr>changed = True, msg = ''environment deleted'', res_id = JNull,
                    res_client_id = JNull, res_client_secret = JNull\<rparr>,
               cs @ [AnypointCli (delete_cmd m cb)]))
       \<and> (\<forall>r. fst (env_run_module m w h) = Inr r \<longrightarrow>
            changed r \<and> res_id r = JNull \<and> res_client_id r = JNull
            \<and> res_client_secret r = JNull)
       \<and> snd (env_run_module m w h) = cs @ [AnypointCli (delete_cmd m cb)]"
proof -
  from env_get_context_Inr [OF assms(5)] assms(1,6)
  have nd: "\<not> env_do_nothing ctx" by auto
  show ?thesis
    using assms(1-3) nd assms(5) [unfolded assms(4)]
    by (auto simp: env_run_module_cases delete_environment_cases assms(4))
qed


lemma demo_env_absent_cmd_base:
  "env_cmd_base_of demo_env_absent ''/bin/anypoint-cli'' = demo_env_cmd_base"
  by (simp add: demo_env_cmd_base_def env_cmd_base_of_def demo_env_simps)

lemma demo_env_absent_get_context:
  "env_get_context demo_env_absent demo_env_world_existing demo_env_cmd_base [] =
     (Inr \<lparr>env_do_nothing = False, ctx_id = JStr ''e1'', ctx_client_id = JStr ''c1'',
           ctx_client_secret = JNull\<rparr>,
      [Describe (describe_cmd demo_env demo_env_cmd_base)])"
  by (simp add: env_get_context_def andthen_def get_environment_cases demo_describe_cmd
      demo_env_world_simps demo_json_loads_def subscript_def ok_def env_initial_context_def
      demo_env_simps)

lemma demo_delete_is_not_describe:
  "delete_cmd demo_env_absent demo_env_cmd_base \<noteq> describe_cmd demo_env demo_env_cmd_base"
  by (simp add: delete_cmd_def describe_cmd_def demo_env_simps)

theorem delete_outcome_drops_identifiers_witness:
  "env_state demo_env_absent = EnvAbsent
   \<and> env_get_context demo_env_absent demo_env_world_existing demo_env_cmd_base [] =
       (Inr \<lparr>env_do_nothing = False, ctx_id = JStr ''e1'', ctx_client_id = JStr ''c1'',
             ctx_client_secret = JNull\<rparr>,
        [Describe (describe_cmd demo_env demo_env_cmd_base)])
   \<and> env_run_module demo_env_absent demo_env_world_existing [] =
       (Inr \<lparr>changed = True, msg = ''environment deleted'', res_id = JNull,
             res_client_id = JNull, res_client_secret = JNull\<rparr>,
        [Describe (describe_cmd demo_env demo_env_cmd_base),
         AnypointCli (delete_cmd demo_env_absent demo_env_cmd_base)])"
proof -
  have a1: "env_state demo_env_absent = EnvAbsent" and a2: "\<not> env_check_mode demo_env_absent"
    by (simp_all add: demo_env_simps)
  have a3: "env_get_bin_path demo_env_world_existing ''anypoint-cli'' = Some ''/bin/anypoint-cli''"
    by (simp add: demo_env_world_simps)
  have a6: "ctx_id \<lparr>env_do_nothing = False, ctx_id = JStr ''e1'', ctx_client_id = JStr ''c1'',
           ctx_client_secret = JNull\<rparr> \<noteq> JNull"
    by simp
  have rc: "fst (env_run_command demo_env_world_existing
      ([] @ [Describe (describe_cmd demo_env demo_env_cmd_base)])
      (delete_cmd demo_env_absent demo_env_cmd_base)) = 0"
    by (simp add: demo_env_world_simps demo_delete_is_not_describe)
  from delete_outcome_drops_identifiers
    [OF a1 a2 a3 demo_env_absent_cmd_base [symmetric] demo_env_absent_get_context a6] rc
  show ?thesis
    by (simp add: a1 demo_env_absent_get_context)
qed

section \<open>Idempotence\<close>

lemma reads_only_ok: "reads_only (ok x)"
  and reads_only_fail_json: "reads_only (fail_json e)"
  and reads_only_raise: "reads_only (raise e)"
  by (simp_all add: reads_only_def ok_def fail_json_def raise_def)

lemma reads_only_perform: "\<not> mutating c \<Longrightarrow> reads_only (perform c a)"
  by (simp add: reads_only_def perform_def)

lemma reads_only_andthen:
  assumes "reads_only f" and "\<And>x. reads_only (g x)"
  shows "reads_only (andthen f g)"
  using assms
  by (auto simp: reads_only_def andthen_def split: prod.splits sum.splits)
     (metis snd_conv)+

lemma reads_only_if: "reads_only f \<Longrightarrow> reads_only g \<Longrightarrow> reads_only (if b then f else g)"
  by simp

lemmas reads_only_intros =
  reads_only_andthen reads_only_perform reads_only_ok reads_only_fail_json reads_only_raise
  reads_only_if

lemma reads_only_look: "reads_only (look_asset_on_exchange m w)"
  by (simp add: reads_only_def look_calls)

lemma reads_only_get_context: "reads_only (get_context m w cb)"
  unfolding get_context_def Let_def
  by (intro reads_only_intros reads_only_look) simp_all

lemma reads_only_subscript: "reads_only (subscript d k)"
  by (simp add: subscript_def reads_only_intros split: json.splits option.splits)

lemma reads_only_find_org: "reads_only (find_org org items)"
  by (induction items) (auto intro!: reads_only_intros reads_only_subscript)

lemma reads_only_json_load: "reads_only (json_load w body)"
  by (simp add: json_load_def reads_only_intros split: option.splits)

lemma reads_only_http: "reads_only (execute_http_call w url)"
  by (simp add: execute_http_call_def reads_only_perform)

lemma reads_only_get_org_id: "reads_only (get_org_id m w)"
  unfolding get_org_id_def
  by (intro reads_only_intros reads_only_http reads_only_json_load reads_only_subscript)
     (auto intro!: reads_only_intros reads_only_find_org split: json.splits)

lemma reads_only_client_secret: "reads_only (get_env_client_secret m w org_id client_id)"
  unfolding get_env_client_secret_def
  by (auto intro!: reads_only_intros reads_only_http reads_only_json_load
      split: json.splits prod.splits)

lemma reads_only_get_environment: "reads_only (get_environment m w cb)"
  by (simp add: reads_only_def get_environment_cases)

lemma reads_only_env_get_context: "reads_only (env_get_context m w cb)"
  unfolding env_get_context_def
  by (intro reads_only_intros reads_only_get_environment reads_only_subscript
      reads_only_get_org_id reads_only_client_secret)


lemma run_module_completed:
  assumes "fst (run_module m w h) = Inr r"
  shows "\<exists>cli mvn. ap_get_anypointcli_path w = Inr (Some cli) \<and> get_bin_path w ''mvn'' = Some mvn
           \<and> (check_mode m \<or> \<not> requires_project_dir m \<and> \<not> requires_file_path m)"
  using assms
  by (auto simp: run_module_cases split: option.splits sum.splits if_splits)

lemma satisfied_do_nothing:
  assumes "asset_satisfied m w h"
  shows "\<exists>ctx cs. get_context m w [] h = (Inr ctx, cs) \<and> do_nothing ctx"
proof -
  obtain r cs where g: "get_context m w [] h = (r, cs)"
    by (cases "get_context m w [] h")
  from assms g obtain ctx where r: "r = Inr ctx"
    by (cases r) (simp_all add: asset_satisfied_def)
  have "do_nothing ctx"
    using assms g [unfolded r]
    by (cases "state m")
       (auto simp: asset_satisfied_def get_context_cases initial_context_def
          split: prod.splits sum.splits if_splits)
  with g r show ?thesis by blast
qed

lemma asset_second_run:
  assumes "fst (run_module m w h0) = Inr r0" and "asset_satisfied m w h"
  shows "fst (run_module m w h) = Inr initial_result
       \<and> filter mutating (snd (run_module m w h)) = []
       \<and> (\<not> check_mode m \<longrightarrow>
            (\<exists>ctx. fst (get_context m w [] h) = Inr ctx \<and> do_nothing ctx
               \<and> snd (run_module m w h) = snd (get_context m w [] h)))"
proof -
  from run_module_completed [OF assms(1)] obtain cli mvn where
    bins: "ap_get_anypointcli_path w = Inr (Some cli)" "get_bin_path w ''mvn'' = Some mvn"
    and v: "check_mode m \<or> \<not> requires_project_dir m \<and> \<not> requires_file_path m"
    by blast
  from satisfied_do_nothing [OF assms(2)] obtain ctx cs where
    ctx: "get_context m w [] h = (Inr ctx, cs)" and dn: "do_nothing ctx"
    by blast
  have reads: "filter mutating cs = []"
    using reads_only_get_context [of m w "[]"] ctx
    by (auto simp: reads_only_def dest: spec [of _ h])
  show ?thesis
  proof (cases "check_mode m")
    case True
    then show ?thesis by (simp add: run_module_cases bins)
  next
    case False
    with v have "run_module m w h = (Inr initial_result, cs)"
      using ctx dn by (simp add: run_module_cases bins)
    with False ctx dn reads show ?thesis by simp
  qed
qed

lemma env_second_run:
  assumes "env_satisfied m w h"
  shows "(\<exists>r. fst (env_run_module m w h) = Inr r \<and> \<not> changed r \<and> msg r = ''No action taken'')
       \<and> filter mutating (snd (env_run_module m w h)) = []
       \<and> (\<not> env_check_mode m \<longrightarrow>
            (\<exists>cli ctx. env_get_bin_path w ''anypoint-cli'' = Some cli
               \<and> fst (env_get_context m w (env_cmd_base_of m cli) h) = Inr ctx
               \<and> env_do_nothing ctx))"
proof -
  from assms obtain cli where cli: "env_get_bin_path w ''anypoint-cli'' = Some cli"
    by (auto simp: env_satisfied_def split: option.splits)
  obtain r cs where g: "env_get_context m w (env_cmd_base_of m cli) h = (r, cs)"
    by (cases "env_get_context m w (env_cmd_base_of m cli) h")
  from assms cli g obtain ctx where r: "r = Inr ctx"
    by (cases r) (simp_all add: env_satisfied_def)
  have dn: "env_do_nothing ctx"
    using env_get_context_Inr [OF g [unfolded r]] assms cli g r
    by (cases "env_state m") (auto simp: env_satisfied_def)
  have reads: "filter mutating cs = []"
    using reads_only_env_get_context [of m w "env_cmd_base_of m cli"] g
    by (auto simp: reads_only_def dest: spec [of _ h])
  show ?thesis
    using cli g r dn reads
    by (simp add: env_run_module_cases env_initial_result_def)
qed

text \<open>
  C2. Asset module: if a run with the same parameters on the same host has completed before,
  and the observed state now satisfies the desired one, the run finds \<open>do_nothing\<close>, exits
  with \<open>changed = False\<close> and issues no mutating call. Environment module: the same, whenever
  the observed state satisfies the desired one. In check mode both exit right away with
  \<open>changed = False\<close>.
\<close>

theorem second_run_changes_nothing:
  "(fst (run_module m w h0) = Inr r0 \<and> asset_satisfied m w h \<longrightarrow>
      fst (run_module m w h) = Inr \<lparr>changed = False, msg = ''No action taken''\<rparr>
      \<and> filter mutating (snd (run_module m w h)) = []
      \<and> (\<not> check_mode m \<longrightarrow>
           (\<exists>ctx. fst (get_context m w [] h) = Inr ctx \<and> do_nothing ctx
              \<and> snd (run_module m w h) = snd (get_context m w [] h))))
   \<and> (env_satisfied em ew eh \<longrightarrow>
      (\<exists>r. fst (env_run_module em ew eh) = Inr r \<and> \<not> changed r \<and> msg r = ''No action taken'')
      \<and> filter mutating (snd (env_run_module em ew eh)) = []
      \<and> (\<not> env_check_mode em \<longrightarrow>
           (\<exists>cli ctx. env_get_bin_path ew ''anypoint-cli'' = Some cli
              \<and> fst (env_get_context em ew (env_cmd_base_of em cli) eh) = Inr ctx
              \<and> env_do_nothing ctx)))"
  using asset_second_run [of m w h0 r0 h] env_second_run [of em ew eh]
  by (simp add: initial_result_def)


lemma demo_first_run:
  \<open>run_module demo_params demo_world [] =
     (Inr \<lparr>changed = True, msg = ''Asset uploaded''\<rparr>,
      [LookGraphql ''g'' ''a'' ''1.0.0'',
       AnypointCli (''/bin/anypoint-cli --bearer="t" --host="h" --organization="o" exchange asset''
         @ '' upload --name "My Asset" --classifier "custom" "g/a/1.0.0"''),
       ModifyExchangeAsset ''g'' ''a'' ''1.0.0''])\<close>
proof -
  have v: "\<not> requires_project_dir demo_params" "\<not> requires_file_path demo_params"
    by (simp_all add: requires_project_dir_def requires_file_path_def demo_params_simps)
  have nf: "fst (look_asset_on_exchange demo_params demo_world []) = Inr None"
    by (simp add: demo_not_found demo_params_simps)
  have ty: "atype (normalize_params demo_params) = Custom \<or> atype (normalize_params demo_params) = Oas
      \<or> atype (normalize_params demo_params) = Wsdl"
    by (simp add: normalize_params_simps demo_params_simps)
  show ?thesis
    using run_module_creates [OF _ _ v _ _ nf refl, of "''/bin/anypoint-cli''" "''/bin/mvn''"]
    by (simp add: demo_params_simps demo_world_simps upload_by_type_cli [OF ty]
        cli_upload_cmd_def normalize_params_simps cmd_base_of_def empty_to_none_def)
qed

lemma demo_get_context_found:
  "filter mutating h \<noteq> [] \<Longrightarrow>
   get_context demo_params demo_world cb h =
     (Inr (initial_context\<lparr>do_nothing := True, exists_on_exchange := True\<rparr>),
      [LookGraphql ''g'' ''a'' ''1.0.0'', AnalyzeAsset ''g'' ''a'' ''1.0.0''])"
  by (simp add: get_context_cases look_cases demo_world_simps demo_params_simps demo_item_def
      demo_analysis_def initial_context_def)

lemma demo_get_environment_not_found:
  "filter mutating h = [] \<Longrightarrow>
   get_environment demo_env demo_env_world demo_env_cmd_base h =
     (Inr (JObj []), [Describe (describe_cmd demo_env demo_env_cmd_base)])"
  by (simp add: get_environment_cases demo_env_world_simps remove_newlines_def)

lemma demo_create_is_not_describe:
  "create_cmd demo_env demo_env_cmd_base \<noteq> describe_cmd demo_env demo_env_cmd_base"
  by (simp add: create_cmd_def describe_cmd_def demo_env_simps)

lemma demo_env_first_run:
  "env_run_module demo_env demo_env_world [] =
     (Inr \<lparr>changed = True, msg = ''environment created'', res_id = JStr ''e1'',
           res_client_id = JStr ''c1'', res_client_secret = JStr ''s3''\<rparr>,
      [Describe (describe_cmd demo_env demo_env_cmd_base),
       AnypointCli (create_cmd demo_env demo_env_cmd_base),
       Describe (describe_cmd demo_env demo_env_cmd_base),
       HttpGet ''https://h/accounts/api/profile'',
       HttpGet ''https://h/accounts/api/organizations/oid/clients/c1''])"
proof -
  have ctx: "env_get_context demo_env demo_env_world demo_env_cmd_base [] =
      (Inr env_initial_context, [Describe (describe_cmd demo_env demo_env_cmd_base)])"
    by (simp add: env_get_context_def andthen_def demo_get_environment_not_found ok_def
        env_initial_context_def demo_env_simps)
  have create: "create_environment demo_env demo_env_world demo_env_cmd_base
        [Describe (describe_cmd demo_env demo_env_cmd_base)] =
      (Inr \<lparr>out_id = JStr ''e1'', out_client_id = JStr ''c1'', out_client_secret = JStr ''s3'',
            out_msg = ''environment created''\<rparr>,
       [AnypointCli (create_cmd demo_env demo_env_cmd_base),
        Describe (describe_cmd demo_env demo_env_cmd_base),
        HttpGet ''https://h/accounts/api/profile'',
        HttpGet ''https://h/accounts/api/organizations/oid/clients/c1''])"
    by (simp add: create_environment_def andthen_def env_execute_anypoint_cli_cases
        demo_env_world_simps demo_create_is_not_describe demo_get_environment_found
        subscript_def ok_def demo_get_org_id demo_get_env_client_secret)
  show ?thesis
    by (simp add: env_run_module_cases demo_env_world_simps demo_env_simps
        demo_env_cmd_base_def [symmetric] ctx env_initial_context_def
        create [unfolded env_initial_context_def])
qed

theorem second_run_changes_nothing_witness:
  "fst (run_module demo_params demo_world []) = Inr \<lparr>changed = True, msg = ''Asset uploaded''\<rparr>
   \<and> asset_satisfied demo_params demo_world (snd (run_module demo_params demo_world []))
   \<and> fst (run_module demo_params demo_world (snd (run_module demo_params demo_world [])))
       = Inr \<lparr>changed = False, msg = ''No action taken''\<rparr>
   \<and> snd (run_module demo_params demo_world (snd (run_module demo_params demo_world [])))
       = [LookGraphql ''g'' ''a'' ''1.0.0'', AnalyzeAsset ''g'' ''a'' ''1.0.0'']
   \<and> fst (env_run_module demo_env demo_env_world [])
       = Inr \<lparr>changed = True, msg = ''environment created'', res_id = JStr ''e1'',
              res_client_id = JStr ''c1'', res_client_secret = JStr ''s3''\<rparr>
   \<and> env_satisfied demo_env demo_env_world (snd (env_run_module demo_env demo_env_world []))
   \<and> fst (env_run_module demo_env demo_env_world (snd (env_run_module demo_env demo_env_world [])))
       = Inr \<lparr>changed = False, msg = ''No action taken'', res_id = JStr ''e1'',
              res_client_id = JStr ''c1'', res_client_secret = JStr ''s3''\<rparr>
   \<and> filter mutating
         (snd (env_run_module demo_env demo_env_world
                 (snd (env_run_module demo_env demo_env_world [])))) = []"
proof -
  define h where "h = snd (run_module demo_params demo_world [])"
  define eh where "eh = snd (env_run_module demo_env demo_env_world [])"
  have first: "fst (run_module demo_params demo_world [])
      = Inr \<lparr>changed = True, msg = ''Asset uploaded''\<rparr>"
    by (simp add: demo_first_run)
  have mut: "filter mutating h \<noteq> []"
    by (simp add: h_def demo_first_run)
  have sat: "asset_satisfied demo_params demo_world h"
    by (simp add: asset_satisfied_def demo_get_context_found [OF mut] demo_params_simps
        initial_context_def)
  have efirst: "fst (env_run_module demo_env demo_env_world [])
      = Inr \<lparr>changed = True, msg = ''environment created'', res_id = JStr ''e1'',
              res_client_id = JStr ''c1'', res_client_secret = JStr ''s3''\<rparr>"
    by (simp add: demo_env_first_run)
  have emut: "filter mutating eh \<noteq> []"
    by (simp add: eh_def demo_env_first_run)
  have ectx: "env_get_context demo_env demo_env_world demo_env_cmd_base eh =
     (Inr \<lparr>env_do_nothing = True, ctx_id = JStr ''e1'', ctx_client_id = JStr ''c1'',
           ctx_client_secret = JStr ''s3''\<rparr>,
      [Describe (describe_cmd demo_env demo_env_cmd_base),
       HttpGet ''https://h/accounts/api/profile'',
       HttpGet ''https://h/accounts/api/organizations/oid/clients/c1''])"
    by (simp add: env_get_context_def andthen_def demo_get_environment_found [OF emut]
        subscript_def ok_def env_initial_context_def demo_env_simps demo_get_org_id
        demo_get_env_client_secret)
  have esat: "env_satisfied demo_env demo_env_world eh"
    by (simp add: env_satisfied_def demo_env_world_simps demo_env_cmd_base_def [symmetric] ectx
        demo_env_simps)
  have esecond: "fst (env_run_module demo_env demo_env_world eh)
       = Inr \<lparr>changed = False, msg = ''No action taken'', res_id = JStr ''e1'',
              res_client_id = JStr ''c1'', res_client_secret = JStr ''s3''\<rparr>"
    by (simp add: env_run_module_cases demo_env_world_simps demo_env_simps
        demo_env_cmd_base_def [symmetric] ectx)
  from second_run_changes_nothing [of demo_params demo_world "[]"
      "\<lparr>changed = True, msg = ''Asset uploaded''\<rparr>" h demo_env demo_env_world eh]
    first sat esat
  have "fst (run_module demo_params demo_world h)
         = Inr \<lparr>changed = False, msg = ''No action taken''\<rparr>"
    and "snd (run_module demo_params demo_world h)
         = [LookGraphql ''g'' ''a'' ''1.0.0'', AnalyzeAsset ''g'' ''a'' ''1.0.0'']"
    and "filter mutating (snd (env_run_module demo_env demo_env_world eh)) = []"
    by (simp_all add: demo_get_context_found [OF mut] demo_params_simps)
  with first sat efirst esat esecond show ?thesis
    unfolding h_def eh_def by blast
qed

section \<open>The classifier of the deploy-file path\<close>

lemma select_classifier_refines_table:
  "select_classifier t ext =
     (case map_of spec_classifier_table (t, ext) of
        Some c \<Rightarrow> Inr ('' -Dclassifier='' @ c)
      | None \<Rightarrow>
          Inl (FailJson
            (''[upload_exchange_asset] invalid file extension for '' @ type_name t
             @ '' asset type '' @ ''(only supported .zip for mule 3 and .jar for mule 4)'')))"
  by (cases t) (simp_all add: select_classifier_def spec_classifier_table_def)

lemma deploy_file_selected:
  assumes "file_path m = Some fp" and "select_classifier (atype m) (splitext_ext fp) = Inr cl"
    and "get_bin_path w ''mvn'' = Some mvn"
    and "write_settings_xml w h (get_settings_xml_path m) = None"
  shows \<open>\<exists>rest. snd (deploy_file m w h) =
     WriteSettingsXml (get_settings_xml_path m)
     # Maven (mvn @ '' '' @ ''deploy:deploy-file''
              @ '' -s "'' @ get_settings_xml_path m @ ''"''
              @ '' -Dfile="'' @ fp @ ''"''
              @ '' -DrepositoryId=Repository''
              @ '' -DartifactId='' @ asset_id m
              @ '' -DgroupId='' @ group_id m
              @ '' -Dversion='' @ asset_version m
              @ cl @ '' -Durl='' @ get_distribution_repository_url m)
     # rest\<close>
  using assms
  by (simp add: deploy_file_def andthen_def create_settings_xml_cases execute_maven_cases
      perform_def Let_def split: prod.splits sum.splits)

lemma upload_calls_extend:
  "\<exists>more. snd (upload_exchange_asset m w ctx cb ident h) = snd (upload_by_type m w cb ident h) @ more"
  by (simp add: upload_cases split: prod.splits sum.splits)

text \<open>
  C3. On the deploy-file path the classifier is a function of the declared type and the
  extension of the file path alone, and it is the one the table of the specification gives:
  \<open>select_classifier\<close> returns the \<open>-Dclassifier\<close> argument of the pair's entry and refuses
  every pair without an entry. For a pair with an entry the upload writes the settings file and
  then calls the build tool with the \<open>deploy:deploy-file\<close> goal and that classifier. For a
  pair without an entry the upload fails with the module's \<open>fail_json\<close> for the file
  extension, and the only call issued is the write of the settings file: the build tool is not
  invoked.
\<close>

theorem classifier_selection_table:
  \<open>select_classifier Connector ''.zip'' = Inr '' -Dclassifier=studio-plugin''
   \<and> select_classifier Extension ''.jar'' = Inr '' -Dclassifier=mule-plugin''
   \<and> select_classifier Policy ''.jar'' = Inr '' -Dclassifier=mule-policy''
   \<and> select_classifier Example ''.jar'' = Inr '' -Dclassifier=mule-application-example''
   \<and> select_classifier Template ''.jar'' = Inr '' -Dclassifier=mule-application-template''
   \<and> select_classifier t ext =
       (case map_of spec_classifier_table (t, ext) of
          Some c \<Rightarrow> Inr ('' -Dclassifier='' @ c)
        | None \<Rightarrow>
            Inl (FailJson
              (''[upload_exchange_asset] invalid file extension for '' @ type_name t
               @ '' asset type '' @ ''(only supported .zip for mule 3 and .jar for mule 4)'')))
   \<and> (file_path m = Some fp \<and> atype m \<in> {Example, Template, Connector, Extension, Policy}
        \<and> map_of spec_classifier_table (atype m, splitext_ext fp) = Some c
        \<and> get_bin_path w ''mvn'' = Some mvn
        \<and> write_settings_xml w h (get_settings_xml_path m) = None \<longrightarrow>
        take 2 (snd (upload_exchange_asset m w ctx cmd_base ident h)) =
          [WriteSettingsXml (get_settings_xml_path m),
           Maven (mvn @ '' '' @ ''deploy:deploy-file''
                  @ '' -s "'' @ get_settings_xml_path m @ ''"''
                  @ '' -Dfile="'' @ fp @ ''"''
                  @ '' -DrepositoryId=Repository''
                  @ '' -DartifactId='' @ asset_id m
                  @ '' -DgroupId='' @ group_id m
                  @ '' -Dversion='' @ asset_version m
                  @ '' -Dclassifier='' @ c
                  @ '' -Durl='' @ get_distribution_repository_url m)])
   \<and> (file_path m = Some fp \<and> atype m \<in> {Example, Template, Connector, Extension, Policy}
        \<and> map_of spec_classifier_table (atype m, splitext_ext fp) = None \<longrightarrow>
        (\<exists>msg. fst (upload_exchange_asset m w ctx cmd_base ident h) = Inl (FailJson msg))
        \<and> snd (upload_exchange_asset m w ctx cmd_base ident h)
            = [WriteSettingsXml (get_settings_xml_path m)]
        \<and> (write_settings_xml w h (get_settings_xml_path m) = None \<longrightarrow>
             fst (upload_exchange_asset m w ctx cmd_base ident h) =
               Inl (FailJson
                 (''[upload_exchange_asset] invalid file extension for '' @ type_name (atype m)
                  @ '' asset type '' @ ''(only supported .zip for mule 3 and .jar for mule 4)''))))\<close>
proof -
  have rows: "select_classifier Connector ''.zip'' = Inr '' -Dclassifier=studio-plugin''"
    "select_classifier Extension ''.jar'' = Inr '' -Dclassifier=mule-plugin''"
    "select_classifier Policy ''.jar'' = Inr '' -Dclassifier=mule-policy''"
    "select_classifier Example ''.jar'' = Inr '' -Dclassifier=mule-application-example''"
    "select_classifier Template ''.jar'' = Inr '' -Dclassifier=mule-application-template''"
    by (simp_all add: select_classifier_def)
  note refines = select_classifier_refines_table [of t ext]
  have selected: \<open>take 2 (snd (upload_exchange_asset m w ctx cmd_base ident h)) =
          [WriteSettingsXml (get_settings_xml_path m),
           Maven (mvn @ '' '' @ ''deploy:deploy-file''
                  @ '' -s "'' @ get_settings_xml_path m @ ''"''
                  @ '' -Dfile="'' @ fp @ ''"''
                  @ '' -DrepositoryId=Repository''
                  @ '' -DartifactId='' @ asset_id m
                  @ '' -DgroupId='' @ group_id m
                  @ '' -Dversion='' @ asset_version m
                  @ '' -Dclassifier='' @ c
                  @ '' -Durl='' @ get_distribution_repository_url m)]\<close>
    if fp: "file_path m = Some fp"
      and ty: "atype m \<in> {Example, Template, Connector, Extension, Policy}"
      and entry: "map_of spec_classifier_table (atype m, splitext_ext fp) = Some c"
      and mvn: "get_bin_path w ''mvn'' = Some mvn"
      and wr: "write_settings_xml w h (get_settings_xml_path m) = None"
  proof -
    have cl: "select_classifier (atype m) (splitext_ext fp) = Inr ('' -Dclassifier='' @ c)"
      by (simp add: select_classifier_refines_table entry)
    from deploy_file_selected [OF fp cl mvn wr] upload_calls_extend [of m w ctx cmd_base ident h]
    show ?thesis
      by (auto simp: upload_takes_deploy_file [OF fp ty])
  qed
  have refused: "(\<exists>msg. fst (upload_exchange_asset m w ctx cmd_base ident h) = Inl (FailJson msg))
        \<and> snd (upload_exchange_asset m w ctx cmd_base ident h)
            = [WriteSettingsXml (get_settings_xml_path m)]
        \<and> (write_settings_xml w h (get_settings_xml_path m) = None \<longrightarrow>
             fst (upload_exchange_asset m w ctx cmd_base ident h) =
               Inl (FailJson
                 (''[upload_exchange_asset] invalid file extension for '' @ type_name (atype m)
                  @ '' asset type '' @ ''(only supported .zip for mule 3 and .jar for mule 4)'')))"
    if fp: "file_path m = Some fp"
      and ty: "atype m \<in> {Example, Template, Connector, Extension, Policy}"
      and none: "map_of spec_classifier_table (atype m, splitext_ext fp) = None"
  proof -
    have cl: "select_classifier (atype m) (splitext_ext fp) =
        Inl (FailJson
          (''[upload_exchange_asset] invalid file extension for '' @ type_name (atype m)
           @ '' asset type '' @ ''(only supported .zip for mule 3 and .jar for mule 4)''))"
      by (simp add: select_classifier_refines_table none)
    note rej = deploy_file_rejected [OF fp cl, of w h]
    show ?thesis
      unfolding upload_exchange_asset_def upload_takes_deploy_file [OF fp ty]
      by (cases "write_settings_xml w h (get_settings_xml_path m)")
         (simp_all add: andthen_def rej)
  qed
  from rows refines selected refused show ?thesis by blast
qed

theorem classifier_selection_table_witness:
  \<open>file_path demo_example_jar = Some ''/tmp/app.jar'' \<and> atype demo_example_jar = Example
   \<and> splitext_ext ''/tmp/app.jar'' = ''.jar''
   \<and> map_of spec_classifier_table (Example, ''.jar'') = Some ''mule-application-example''
   \<and> take 2 (snd (upload_exchange_asset demo_example_jar demo_world initial_context []
                     ''g/a/1.0.0'' [])) =
        [WriteSettingsXml ''/tmp/g_a_settings.xml'',
         Maven (''/bin/mvn deploy:deploy-file -s "/tmp/g_a_settings.xml" -Dfile="/tmp/app.jar"''
                @ '' -DrepositoryId=Repository -DartifactId=a -DgroupId=g -Dversion=1.0.0''
                @ '' -Dclassifier=mule-application-example''
                @ '' -Durl=https://maven.h/api/v1/organizations/g/maven'')]
   \<and> file_path demo_zip_params = Some ''/tmp/app.zip'' \<and> atype demo_zip_params = Example
   \<and> splitext_ext ''/tmp/app.zip'' = ''.zip''
   \<and> map_of spec_classifier_table (Example, ''.zip'') = None
   \<and> fst (upload_exchange_asset demo_zip_params demo_world initial_context [] ''g/a/1.0.0'' []) =
        Inl (FailJson
          (''[upload_exchange_asset] invalid file extension for example asset type ''
           @ ''(only supported .zip for mule 3 and .jar for mule 4)''))
   \<and> snd (upload_exchange_asset demo_zip_params demo_world initial_context [] ''g/a/1.0.0'' [])
        = [WriteSettingsXml ''/tmp/g_a_settings.xml'']\<close>
proof -
  have jar: "map_of spec_classifier_table (Example, ''.jar'') = Some ''mule-application-example''"
    and zip: "map_of spec_classifier_table (Example, ''.zip'') = None"
    by (simp_all add: spec_classifier_table_def)
  from classifier_selection_table [of Example "''.jar''" demo_example_jar "''/tmp/app.jar''"
      "''mule-application-example''" demo_world "''/bin/mvn''" "[]" initial_context "[]"
      "''g/a/1.0.0''"]
  have accepted: \<open>take 2 (snd (upload_exchange_asset demo_example_jar demo_world initial_context []
                     ''g/a/1.0.0'' [])) =
        [WriteSettingsXml ''/tmp/g_a_settings.xml'',
         Maven (''/bin/mvn deploy:deploy-file -s "/tmp/g_a_settings.xml" -Dfile="/tmp/app.jar"''
                @ '' -DrepositoryId=Repository -DartifactId=a -DgroupId=g -Dversion=1.0.0''
                @ '' -Dclassifier=mule-application-example''
                @ '' -Durl=https://maven.h/api/v1/organizations/g/maven'')]\<close>
    by (simp add: jar demo_example_simps splitext_ext_examples demo_world_simps
        get_settings_xml_path_def get_tmp_dir_def get_distribution_repository_url_def)
  from classifier_selection_table [of Example "''.zip''" demo_zip_params "''/tmp/app.zip''"
      "''x''" demo_world "''/bin/mvn''" "[]" initial_context "[]" "''g/a/1.0.0''"]
  have refused: "fst (upload_exchange_asset demo_zip_params demo_world initial_context []
                        ''g/a/1.0.0'' []) =
        Inl (FailJson
          (''[upload_exchange_asset] invalid file extension for example asset type ''
           @ ''(only supported .zip for mule 3 and .jar for mule 4)''))"
    "snd (upload_exchange_asset demo_zip_params demo_world initial_context [] ''g/a/1.0.0'' [])
        = [WriteSettingsXml ''/tmp/g_a_settings.xml'']"
    by (simp_all add: zip demo_zip_params_simps splitext_ext_examples demo_world_simps
        get_settings_xml_path_def get_tmp_dir_def)
  from accepted refused jar zip show ?thesis
    by (simp add: demo_example_simps demo_zip_params_simps splitext_ext_examples)
qed

end
